theory Spec2Isabelle
  imports Main
begin

section \<open>Incremental CFPB complaints flow\<close>

text \<open>
  A shallow embedding of \<^verbatim>\<open>src/orchestration/cfpb_flows.py\<close>: the task
  \<^verbatim>\<open>extract_and_load_complaints_task\<close> and the flow
  \<^verbatim>\<open>cfpb_complaints_incremental_flow\<close>. The flow reads the next load window from
  the watermark store, skips when the window is empty, otherwise runs the task once per
  configured company inside \<^verbatim>\<open>try ... except Exception\<close>, and writes the
  watermark when every result has status success. The calls of the logger are left out,
  and the Prefect decorators \<^verbatim>\<open>@task\<close> and \<^verbatim>\<open>@flow\<close> are taken to call the
  decorated function and to pass on what it returns or raises.
\<close>

subsection \<open>Python values\<close>

text \<open>
  A raised Python exception. \<open>is_Exception\<close> says whether the object is an instance of
  the class \<^verbatim>\<open>Exception\<close>, which is what the handler \<^verbatim>\<open>except Exception as e\<close>
  tests; \<^verbatim>\<open>KeyboardInterrupt\<close> and \<^verbatim>\<open>SystemExit\<close> derive from
  \<^verbatim>\<open>BaseException\<close> only. \<open>str_exc\<close> is \<^verbatim>\<open>str(e)\<close>.
\<close>

datatype py_exc = PyExc (exc_class: string) (is_Exception: bool) (str_exc: string)

text \<open>
  A per-company result is a dict with string keys and string values; the summary is a
  dict whose values are strings, ints or the list of results. Dicts are association
  lists in insertion order; \<^verbatim>\<open>d.get(k)\<close> is \<open>map_of d k\<close>.
\<close>

type_synonym run_result = "(string \<times> string) list"

datatype py_value = PyStr string | PyInt int | PyList "run_result list"

type_synonym py_dict = "(string \<times> py_value) list"

definition dict_keys :: "('k \<times> 'v) list \<Rightarrow> 'k list" where
  "dict_keys d = map fst d"

text \<open>
  What \<^verbatim>\<open>datetime.strptime(s, "%Y-%m-%d")\<close> yields: year, month and day (the time of
  day is zero for this format). Two such values compare as their triples do.
\<close>

type_synonym datetime = "nat \<times> nat \<times> nat"

definition datetime_gt :: "datetime \<Rightarrow> datetime \<Rightarrow> bool" where
  "datetime_gt p q = (case p of (y1, m1, d1) \<Rightarrow> case q of (y2, m2, d2) \<Rightarrow>
     y2 < y1 \<or> (y1 = y2 \<and> (m2 < m1 \<or> (m1 = m2 \<and> d2 < d1))))"

subsection \<open>Calendar dates in ISO form\<close>

definition is_leap :: "nat \<Rightarrow> bool" where
  "is_leap y = (y mod 4 = 0 \<and> (y mod 100 \<noteq> 0 \<or> y mod 400 = 0))"

definition days_in_month :: "nat \<Rightarrow> nat \<Rightarrow> nat" where
  "days_in_month y m =
     (if m = 2 then (if is_leap y then 29 else 28)
      else if m = 4 \<or> m = 6 \<or> m = 9 \<or> m = 11 then 30
      else 31)"

definition valid_date :: "datetime \<Rightarrow> bool" where
  "valid_date dt = (case dt of (y, m, d) \<Rightarrow>
     1 \<le> y \<and> y \<le> 9999 \<and> 1 \<le> m \<and> m \<le> 12 \<and> 1 \<le> d \<and> d \<le> days_in_month y m)"

definition plus_one_day :: "datetime \<Rightarrow> datetime" where
  "plus_one_day dt = (case dt of (y, m, d) \<Rightarrow>
     if d < days_in_month y m then (y, m, d + 1)
     else if m < 12 then (y, m + 1, 1)
     else (y + 1, 1, 1))"

definition digit_char :: "nat \<Rightarrow> char" where
  "digit_char n = char_of (48 + n mod 10)"

definition digit_val :: "char \<Rightarrow> nat option" where
  "digit_val c = (let n = (of_char c :: nat) in
     if 48 \<le> n \<and> n \<le> 57 then Some (n - 48) else None)"

definition strftime_ymd :: "datetime \<Rightarrow> string" where
  "strftime_ymd dt = (case dt of (y, m, d) \<Rightarrow>
     [digit_char (y div 1000), digit_char (y div 100), digit_char (y div 10), digit_char y,
      CHR ''-'', digit_char (m div 10), digit_char m,
      CHR ''-'', digit_char (d div 10), digit_char d])"

text \<open>
  The parser for the zero-padded form \<^verbatim>\<open>YYYY-MM-DD\<close>; anything else, and a date that
  is not on the calendar, raises \<^verbatim>\<open>ValueError\<close>.
\<close>

definition ValueError :: "string \<Rightarrow> py_exc" where
  "ValueError msg = PyExc ''ValueError'' True msg"

definition parse_iso_date :: "string \<Rightarrow> py_exc + datetime" where
  "parse_iso_date s =
     (case s of
        [y1, y2, y3, y4, s1, m1, m2, s2, d1, d2] \<Rightarrow>
          (case map digit_val [y1, y2, y3, y4, m1, m2, d1, d2] of
             [Some a, Some b, Some c, Some d, Some e, Some f, Some g, Some h] \<Rightarrow>
               (let dt = (1000 * a + 100 * b + 10 * c + d, 10 * e + f, 10 * g + h)
                in if s1 = CHR ''-'' \<and> s2 = CHR ''-'' \<and> valid_date dt then Inr dt
                   else Inl (ValueError s))
           | _ \<Rightarrow> Inl (ValueError s))
      | _ \<Rightarrow> Inl (ValueError s))"

subsection \<open>The world the flow runs in\<close>

text \<open>
  The effects of a run, in the order they happen: an invocation of the per-company task
  with its arguments (date_min, date_max, company_name, database_path), and a write of
  the watermark.
\<close>

datatype event =
    Task_call string string string string
  | Watermark_write string

text \<open>
  The state a run can touch: the persisted watermark \<^verbatim>\<open>last_loaded_date\<close> (absent
  before the first successful run), the external destination storage that only the
  pipeline mutates, and the trace of events so far.
\<close>

record 'w world =
  watermark :: "string option"
  storage :: 'w
  events :: "event list"

text \<open>
  What the flow imports and does not define: the configuration \<^verbatim>\<open>COMPANIES\<close> and
  \<^verbatim>\<open>START_DATE\<close>, the current date as the clock gives it, the library parser
  \<^verbatim>\<open>datetime.strptime(_, "%Y-%m-%d")\<close>, and the dlt pipeline. \<open>run_pipeline\<close>
  stands for \<^verbatim>\<open>str(create_pipeline(database_path).run(extract_complaints(date_min,
  date_max, company_name)))\<close>: it is given database_path, date_min, date_max and
  company_name, may change the destination storage, and either raises or yields the
  string form of the load info.
\<close>

record 'w env =
  COMPANIES :: "string list"
  START_DATE :: string
  today :: string
  strptime :: "string \<Rightarrow> py_exc + datetime"
  run_pipeline :: "string \<Rightarrow> string \<Rightarrow> string \<Rightarrow> string \<Rightarrow> 'w \<Rightarrow> (py_exc + string) \<times> 'w"

subsection \<open>Watermark store\<close>

text \<open>
  The flow imports \<^verbatim>\<open>get_next_load_date\<close> and \<^verbatim>\<open>update_last_loaded_date\<close> from
  \<^verbatim>\<open>src/utils/state.py\<close>, which is not among the sources. The four operations of
  the store follow section 4.1 of the specification, with dates in ISO form.
\<close>

text \<open>
  Modelled from the spec: \<^verbatim>\<open>get_last_loaded_date\<close> of the missing
  \<^verbatim>\<open>utils/state.py\<close>. It reads the persisted state and returns absent when there is
  none yet.
\<close>

definition get_last_loaded_date :: "'w world \<Rightarrow> string option" where
  "get_last_loaded_date st = watermark st"

text \<open>
  Modelled from the spec: \<^verbatim>\<open>get_next_load_date\<close> of the missing
  \<^verbatim>\<open>utils/state.py\<close>. Without a watermark the window is (start_date, today); with a
  watermark it is (watermark + 1 day, today); there is no clamping. A stored watermark
  that is not a date cannot be advanced by a day, and the read fails.
\<close>

definition get_next_load_date ::
  "'w env \<Rightarrow> 'w world \<Rightarrow> string \<Rightarrow> py_exc + (string \<times> string)" where
  "get_next_load_date env st start_date =
     (case get_last_loaded_date st of
        None \<Rightarrow> Inr (start_date, today env)
      | Some w \<Rightarrow>
          (case parse_iso_date w of
             Inl e \<Rightarrow> Inl e
           | Inr d \<Rightarrow> Inr (strftime_ymd (plus_one_day d), today env)))"

text \<open>
  Modelled from the spec: \<^verbatim>\<open>update_last_loaded_date\<close> of the missing
  \<^verbatim>\<open>utils/state.py\<close>. It overwrites the persisted watermark unconditionally. The
  write is recorded in the trace.
\<close>

definition update_last_loaded_date :: "string \<Rightarrow> 'w world \<Rightarrow> 'w world" where
  "update_last_loaded_date date_max st =
     st\<lparr>watermark := Some date_max, events := events st @ [Watermark_write date_max]\<rparr>"

text \<open>
  Modelled from the spec: \<^verbatim>\<open>reset_state\<close> of the missing \<^verbatim>\<open>utils/state.py\<close>. It
  clears the watermark, returning the store to its condition before the first run.
\<close>

definition reset_state :: "'w world \<Rightarrow> 'w world" where
  "reset_state st = st\<lparr>watermark := None\<rparr>"

subsection \<open>The task\<close>

text \<open>
  \<^verbatim>\<open>extract_and_load_complaints_task\<close>: runs the pipeline; when the pipeline raises,
  so does the task; otherwise it returns the success dict.
\<close>

definition extract_and_load_complaints_task ::
  "'w env \<Rightarrow> string \<Rightarrow> string \<Rightarrow> string \<Rightarrow> string \<Rightarrow> 'w \<Rightarrow> (py_exc + run_result) \<times> 'w" where
  "extract_and_load_complaints_task env date_min date_max company_name database_path w =
     (case run_pipeline env database_path date_min date_max company_name w of
        (Inl e, w') \<Rightarrow> (Inl e, w')
      | (Inr info, w') \<Rightarrow>
          (Inr [(''company'', company_name),
                (''status'', ''success''),
                (''date_range'', date_min @ '' to '' @ date_max),
                (''info'', info)], w'))"

subsection \<open>The flow\<close>

text \<open>
  One iteration of \<^verbatim>\<open>for company in COMPANIES\<close>: the task is called; its result is
  the iteration's result; an exception that is an instance of \<^verbatim>\<open>Exception\<close> is caught
  and turned into the failed dict; any other exception leaves the handler uncaught.
\<close>

definition try_company ::
  "'w env \<Rightarrow> string \<Rightarrow> string \<Rightarrow> string \<Rightarrow> string \<Rightarrow> 'w world \<Rightarrow> (py_exc + run_result) \<times> 'w world" where
  "try_company env date_min date_max database_path company st =
     (let st1 = st\<lparr>events := events st @ [Task_call date_min date_max company database_path]\<rparr>
      in case extract_and_load_complaints_task env date_min date_max company database_path
                (storage st1) of
           (Inr result, w') \<Rightarrow> (Inr result, st1\<lparr>storage := w'\<rparr>)
         | (Inl e, w') \<Rightarrow>
             if is_Exception e
             then (Inr [(''company'', company),
                        (''status'', ''failed''),
                        (''error'', str_exc e)], st1\<lparr>storage := w'\<rparr>)
             else (Inl e, st1\<lparr>storage := w'\<rparr>))"

text \<open>The loop, with the list \<^verbatim>\<open>results\<close> it appends to.\<close>

fun company_loop ::
  "'w env \<Rightarrow> string \<Rightarrow> string \<Rightarrow> string \<Rightarrow> string list \<Rightarrow> run_result list \<Rightarrow> 'w world
     \<Rightarrow> (py_exc + run_result list) \<times> 'w world" where
  "company_loop env date_min date_max database_path [] results st = (Inr results, st)"
| "company_loop env date_min date_max database_path (company # rest) results st =
     (case try_company env date_min date_max database_path company st of
        (Inl e, st') \<Rightarrow> (Inl e, st')
      | (Inr result, st') \<Rightarrow>
          company_loop env date_min date_max database_path rest (results @ [result]) st')"

definition has_status :: "string \<Rightarrow> run_result \<Rightarrow> bool" where
  "has_status s r = (map_of r ''status'' = Some s)"

definition skipped_summary :: "string \<Rightarrow> py_dict" where
  "skipped_summary date_max =
     [(''status'', PyStr ''skipped''),
      (''message'', PyStr ''Already up to date''),
      (''last_date'', PyStr date_max)]"

definition run_summary :: "'w env \<Rightarrow> string \<Rightarrow> string \<Rightarrow> run_result list \<Rightarrow> py_dict" where
  "run_summary env date_min date_max results =
     [(''date_range'', PyStr (date_min @ '' to '' @ date_max)),
      (''total_companies'', PyInt (int (length (COMPANIES env)))),
      (''successful'', PyInt (int (length (filter (has_status ''success'') results)))),
      (''failed'', PyInt (int (length (filter (has_status ''failed'') results)))),
      (''results'', PyList results)]"

definition cfpb_complaints_incremental_flow ::
  "'w env \<Rightarrow> string \<Rightarrow> 'w world \<Rightarrow> (py_exc + py_dict) \<times> 'w world" where
  "cfpb_complaints_incremental_flow env database_path st =
     (case get_next_load_date env st (START_DATE env) of
        Inl e \<Rightarrow> (Inl e, st)
      | Inr (date_min, date_max) \<Rightarrow>
          (case strptime env date_min of
             Inl e \<Rightarrow> (Inl e, st)
           | Inr date_min_obj \<Rightarrow>
               (case strptime env date_max of
                  Inl e \<Rightarrow> (Inl e, st)
                | Inr date_max_obj \<Rightarrow>
                    if datetime_gt date_min_obj date_max_obj
                    then (Inr (skipped_summary date_max), st)
                    else
                      (case company_loop env date_min date_max database_path
                              (COMPANIES env) [] st of
                         (Inl e, st') \<Rightarrow> (Inl e, st')
                       | (Inr results, st') \<Rightarrow>
                           (let successful = filter (has_status ''success'') results;
                                st'' = (if length successful = length (COMPANIES env)
                                        then update_last_loaded_date date_max st'
                                        else st')
                            in (Inr (run_summary env date_min date_max results), st''))))))"

subsection \<open>Observations on a run\<close>

text \<open>The watermark writes of a trace, in order, and its task invocations.\<close>

fun watermark_writes :: "event list \<Rightarrow> string list" where
  "watermark_writes [] = []"
| "watermark_writes (Task_call a b c d # evs) = watermark_writes evs"
| "watermark_writes (Watermark_write d # evs) = d # watermark_writes evs"

fun task_calls :: "event list \<Rightarrow> (string \<times> string \<times> string) list" where
  "task_calls [] = []"
| "task_calls (Task_call a b c d # evs) = (a, b, c) # task_calls evs"
| "task_calls (Watermark_write d # evs) = task_calls evs"

text \<open>The two dicts the loop appends: the one the task returns and the handler's.\<close>

definition success_result :: "string \<Rightarrow> string \<Rightarrow> string \<Rightarrow> string \<Rightarrow> run_result" where
  "success_result date_min date_max company info =
     [(''company'', company), (''status'', ''success''),
      (''date_range'', date_min @ '' to '' @ date_max), (''info'', info)]"

definition failed_result :: "string \<Rightarrow> string \<Rightarrow> run_result" where
  "failed_result company err = [(''company'', company), (''status'', ''failed''), (''error'', err)]"

text \<open>
  What the loop appends for a company, given what the pipeline returned or raised for
  it: the dict the task builds around the load info, or the handler's dict for the
  exception it caught.
\<close>

definition recorded_result ::
  "string \<Rightarrow> string \<Rightarrow> string \<Rightarrow> py_exc + string \<Rightarrow> run_result" where
  "recorded_result date_min date_max company outcome =
     (case outcome of
        Inr info \<Rightarrow> [(''company'', company), (''status'', ''success''),
                     (''date_range'', date_min @ '' to '' @ date_max), (''info'', info)]
      | Inl e \<Rightarrow> [(''company'', company), (''status'', ''failed''), (''error'', str_exc e)])"

text \<open>
  The pipeline run once for each company of a list, in order, with the same
  database_path, date_min and date_max, each run on the storage its predecessors left:
  what each run returned or raised, and the storage after the last.
\<close>

fun run_pipelines ::
  "'w env \<Rightarrow> string \<Rightarrow> string \<Rightarrow> string \<Rightarrow> string list \<Rightarrow> 'w
     \<Rightarrow> (py_exc + string) list \<times> 'w" where
  "run_pipelines env database_path date_min date_max [] w = ([], w)"
| "run_pipelines env database_path date_min date_max (company # rest) w =
     (case run_pipeline env database_path date_min date_max company w of
        (outcome, w') \<Rightarrow>
          (case run_pipelines env database_path date_min date_max rest w' of
             (outcomes, w'') \<Rightarrow> (outcome # outcomes, w'')))"

subsection \<open>A concrete configuration\<close>

text \<open>
  A pipeline for evaluation. The destination is the list of companies loaded so far.
  Loading company BAD raises an ExtractionError, loading company STOP is interrupted
  from the keyboard, every other company is appended to the destination.
\<close>

definition example_pipeline ::
  "string \<Rightarrow> string \<Rightarrow> string \<Rightarrow> string \<Rightarrow> string list \<Rightarrow> (py_exc + string) \<times> string list" where
  "example_pipeline database_path date_min date_max company w =
     (if company = ''BAD'' then (Inl (PyExc ''ExtractionError'' True ''boom''), w)
      else if company = ''STOP'' then (Inl (PyExc ''KeyboardInterrupt'' False []), w)
      else (Inr (''loaded '' @ company), w @ [company]))"

text \<open>A pipeline that reports a load and leaves the destination as it is.\<close>

definition dry_run_pipeline ::
  "string \<Rightarrow> string \<Rightarrow> string \<Rightarrow> string \<Rightarrow> string list \<Rightarrow> (py_exc + string) \<times> string list" where
  "dry_run_pipeline database_path date_min date_max company w = (Inr ''dry run'', w)"

definition example_env :: "string list \<Rightarrow> string \<Rightarrow> string list env" where
  "example_env companies now =
     \<lparr>COMPANIES = companies, START_DATE = ''2024-01-01'', today = now,
      strptime = parse_iso_date, run_pipeline = example_pipeline\<rparr>"

definition example_world :: "string option \<Rightarrow> string list world" where
  "example_world w = \<lparr>watermark = w, storage = [], events = []\<rparr>"

section \<open>Properties of the calendar\<close>

lemma digit_val_digit_char: "digit_val (digit_char n) = Some (n mod 10)"
proof -
  have "n mod 10 < 10" by simp
  then have "(48 + n mod 10) mod 256 = 48 + n mod 10" by simp
  then show ?thesis by (simp add: digit_val_def digit_char_def Let_def)
qed

lemma four_digits:
  assumes "y \<le> 9999"
  shows "1000 * (y div 1000 mod 10) + 100 * (y div 100 mod 10) + 10 * (y div 10 mod 10) + y mod 10 = (y::nat)"
proof -
  have e1: "y = 10 * (y div 10) + y mod 10" by simp
  have "y div 100 = y div 10 div 10" by (simp add: div_mult2_eq)
  then have e2: "y div 10 = 10 * (y div 100) + y div 10 mod 10" by simp
  have "y div 1000 = y div 100 div 10" by (simp add: div_mult2_eq)
  then have e3: "y div 100 = 10 * (y div 1000) + y div 100 mod 10" by simp
  from assms have "y div 1000 < 10" by simp
  then have e4: "y div 1000 mod 10 = y div 1000" by simp
  from e1 e2 e3 e4 show ?thesis by linarith
qed

lemma two_digits:
  assumes "m \<le> 99"
  shows "10 * (m div 10 mod 10) + m mod 10 = (m::nat)"
proof -
  from assms have "m div 10 < 10" by simp
  then have "m div 10 mod 10 = m div 10" by simp
  then show ?thesis by simp
qed

lemma days_in_month_le: "days_in_month y m \<le> 31"
  by (simp add: days_in_month_def)

lemma parse_ten_chars:
  "parse_iso_date [digit_char a, digit_char b, digit_char c, digit_char d, CHR ''-'',
                   digit_char e, digit_char f, CHR ''-'', digit_char g, digit_char h]
     = (let dt = (1000 * (a mod 10) + 100 * (b mod 10) + 10 * (c mod 10) + d mod 10,
                  10 * (e mod 10) + f mod 10, 10 * (g mod 10) + h mod 10)
        in if valid_date dt then Inr dt
           else Inl (ValueError [digit_char a, digit_char b, digit_char c, digit_char d, CHR ''-'',
                   digit_char e, digit_char f, CHR ''-'', digit_char g, digit_char h]))"
  by (simp add: parse_iso_date_def digit_val_digit_char Let_def)

lemma parse_strftime:
  assumes "valid_date dt"
  shows "parse_iso_date (strftime_ymd dt) = Inr dt"
proof -
  obtain y m d where dt: "dt = (y, m, d)" by (cases dt)
  from assms dt have b: "y \<le> 9999" "m \<le> 12" "d \<le> days_in_month y m"
    by (simp_all add: valid_date_def)
  from b(3) days_in_month_le[of y m] have d: "d \<le> 99" by simp
  from b(2) have m: "m \<le> 99" by simp
  have v: "valid_date (y, m, d)" using assms dt by simp
  have "parse_iso_date (strftime_ymd (y, m, d)) =
     (let dt = (1000 * (y div 1000 mod 10) + 100 * (y div 100 mod 10) + 10 * (y div 10 mod 10) + y mod 10,
                  10 * (m div 10 mod 10) + m mod 10, 10 * (d div 10 mod 10) + d mod 10)
        in if valid_date dt then Inr dt else Inl (ValueError (strftime_ymd (y, m, d))))"
    unfolding strftime_ymd_def prod.case by (rule parse_ten_chars)
  also have "\<dots> = Inr (y, m, d)"
    unfolding four_digits[OF b(1)] two_digits[OF m] two_digits[OF d] Let_def using v by simp
  finally show ?thesis unfolding dt .
qed

lemma plus_one_day_later: "datetime_gt (plus_one_day dt) dt"
proof -
  obtain y m d where dt: "dt = (y, m, d)" by (cases dt)
  show ?thesis unfolding dt by (simp add: plus_one_day_def datetime_gt_def)
qed

lemma plus_one_day_next:
  assumes "valid_date dt" and "valid_date dt'" and "datetime_gt dt' dt"
  shows "\<not> datetime_gt (plus_one_day dt) dt'"
proof -
  obtain y m d where dt: "dt = (y, m, d)" by (cases dt)
  obtain y' m' d' where dt': "dt' = (y', m', d')" by (cases dt')
  from assms(1) dt have v: "1 \<le> m" "m \<le> 12" "1 \<le> d" "d \<le> days_in_month y m"
    by (simp_all add: valid_date_def)
  from assms(2) dt' have v': "1 \<le> m'" "m' \<le> 12" "1 \<le> d'" "d' \<le> days_in_month y' m'"
    by (simp_all add: valid_date_def)
  from assms(3) dt dt' have gt: "y < y' \<or> (y' = y \<and> (m < m' \<or> (m' = m \<and> d < d')))"
    by (simp add: datetime_gt_def)
  consider (day) "d < days_in_month y m" | (month) "d = days_in_month y m" "m < 12"
    | (year) "d = days_in_month y m" "m = 12"
    using v(2,4) by linarith
  then show ?thesis
  proof cases
    case day
    then have "plus_one_day dt = (y, m, d + 1)" by (simp add: dt plus_one_day_def)
    with gt show ?thesis unfolding dt' by (auto simp: datetime_gt_def)
  next
    case month
    then have "plus_one_day dt = (y, m + 1, 1)" by (simp add: dt plus_one_day_def)
    with gt v' month show ?thesis unfolding dt' by (auto simp: datetime_gt_def)
  next
    case year
    then have "plus_one_day dt = (y + 1, 1, 1)" by (simp add: dt plus_one_day_def)
    with gt v' year show ?thesis unfolding dt' by (auto simp: datetime_gt_def)
  qed
qed

lemma plus_one_day_valid:
  assumes "valid_date dt" and "dt \<noteq> (9999, 12, 31)"
  shows "valid_date (plus_one_day dt)"
proof -
  obtain y m d where dt: "dt = (y, m, d)" by (cases dt)
  from assms(1) dt have v: "1 \<le> y" "y \<le> 9999" "1 \<le> m" "m \<le> 12" "1 \<le> d" "d \<le> days_in_month y m"
    by (simp_all add: valid_date_def)
  have dec: "days_in_month y 12 = 31" by (simp add: days_in_month_def)
  have pos: "\<And>y m. 1 \<le> days_in_month y m" by (simp add: days_in_month_def)
  consider (day) "d < days_in_month y m" | (month) "d = days_in_month y m" "m < 12"
    | (year) "d = days_in_month y m" "m = 12"
    using v(4,6) by linarith
  then show ?thesis
  proof cases
    case day
    then have "plus_one_day dt = (y, m, d + 1)" by (simp add: dt plus_one_day_def)
    with v day show ?thesis by (simp add: valid_date_def)
  next
    case month
    then have "plus_one_day dt = (y, m + 1, 1)" by (simp add: dt plus_one_day_def)
    with v month pos[of y "m + 1"] show ?thesis by (simp add: valid_date_def)
  next
    case year
    with dec have d31: "d = 31" by simp
    have "y \<noteq> 9999"
    proof
      assume "y = 9999"
      with dt year(2) d31 have "dt = (9999, 12, 31)" by simp
      with assms(2) show False by simp
    qed
    moreover from year have "plus_one_day dt = (y + 1, 1, 1)" by (simp add: dt plus_one_day_def)
    ultimately show ?thesis using v pos[of "y + 1" 1] by (simp add: valid_date_def)
  qed
qed

section \<open>Properties of the loop and of the flow\<close>

lemma watermark_writes_append: "watermark_writes (xs @ ys) = watermark_writes xs @ watermark_writes ys"
  by (induction xs rule: watermark_writes.induct) simp_all

lemma watermark_writes_calls: "watermark_writes (map (\<lambda>c. Task_call a b c db) cs) = []"
  by (induction cs) simp_all

lemma try_company_cases:
  assumes "try_company env a b db c st = (r, st')"
  shows "\<exists>o' w'. run_pipeline env db a b c (storage st) = (o', w') \<and>
           st' = st\<lparr>events := events st @ [Task_call a b c db], storage := w'\<rparr> \<and>
           (case o' of
              Inr info \<Rightarrow> r = Inr (success_result a b c info)
            | Inl e \<Rightarrow> if is_Exception e then r = Inr (failed_result c (str_exc e)) else r = Inl e)"
  using assms
  by (auto simp: try_company_def extract_and_load_complaints_task_def success_result_def
        failed_result_def Let_def split: prod.splits sum.splits if_splits)

lemma try_company_frame:
  assumes "try_company env a b db c st = (r, st')"
  shows "events st' = events st @ [Task_call a b c db]" and "watermark st' = watermark st"
    and "storage st' = snd (run_pipeline env db a b c (storage st))"
  using try_company_cases[OF assms] by auto

lemma try_company_Inl:
  assumes "try_company env a b db c st = (Inl e, st')"
  shows "\<not> is_Exception e"
  using assms
  by (auto simp: try_company_def extract_and_load_complaints_task_def Let_def
        split: prod.splits sum.splits if_splits)

lemma try_company_Inr:
  assumes "try_company env a b db c st = (Inr r, st')"
  shows "(\<exists>info. r = success_result a b c info) \<or> (\<exists>err. r = failed_result c err)"
  using assms
  by (auto simp: try_company_def extract_and_load_complaints_task_def Let_def success_result_def
        failed_result_def split: prod.splits sum.splits if_splits)

lemma company_loop_watermark:
  "company_loop env a b db cs results st = (r, st') \<Longrightarrow> watermark st' = watermark st"
proof (induction cs arbitrary: results st)
  case Nil
  then show ?case by simp
next
  case (Cons c cs)
  obtain r1 st1 where t: "try_company env a b db c st = (r1, st1)" by force
  show ?case
  proof (cases r1)
    case (Inl e)
    with Cons.prems t try_company_frame(2)[OF t] show ?thesis by simp
  next
    case (Inr x)
    with Cons.prems t have "company_loop env a b db cs (results @ [x]) st1 = (r, st')" by simp
    from Cons.IH[OF this] try_company_frame(2)[OF t] show ?thesis by simp
  qed
qed

lemma company_loop_Inl:
  "company_loop env a b db cs results st = (Inl e, st') \<Longrightarrow> \<not> is_Exception e"
proof (induction cs arbitrary: results st)
  case Nil
  then show ?case by simp
next
  case (Cons c cs)
  obtain r1 st1 where t: "try_company env a b db c st = (r1, st1)" by force
  show ?case
  proof (cases r1)
    case (Inl e1)
    with Cons.prems t try_company_Inl[of env a b db c st e1 st1] show ?thesis by simp
  next
    case (Inr x)
    with Cons.prems t have "company_loop env a b db cs (results @ [x]) st1 = (Inl e, st')" by simp
    from Cons.IH[OF this] show ?thesis .
  qed
qed

lemma company_loop_events_prefix:
  "company_loop env a b db cs results st = (r, st') \<Longrightarrow>
     \<exists>k\<le>length cs. events st' = events st @ map (\<lambda>c. Task_call a b c db) (take k cs)"
proof (induction cs arbitrary: results st)
  case Nil
  then show ?case by simp
next
  case (Cons c cs)
  obtain r1 st1 where t: "try_company env a b db c st = (r1, st1)" by force
  note ev = try_company_frame(1)[OF t]
  show ?case
  proof (cases r1)
    case (Inl e1)
    with Cons.prems t have "st' = st1" by simp
    with ev have "events st' = events st @ map (\<lambda>c. Task_call a b c db) (take 1 (c # cs))" by simp
    then show ?thesis by (intro exI[of _ 1]) simp
  next
    case (Inr x)
    with Cons.prems t have "company_loop env a b db cs (results @ [x]) st1 = (r, st')" by simp
    from Cons.IH[OF this] obtain k where k: "k \<le> length cs"
      "events st' = events st1 @ map (\<lambda>c. Task_call a b c db) (take k cs)" by blast
    with ev have "events st' = events st @ map (\<lambda>c. Task_call a b c db) (take (Suc k) (c # cs))" by simp
    with k(1) show ?thesis by (intro exI[of _ "Suc k"]) simp
  qed
qed

lemma company_loop_Inr:
  "company_loop env a b db cs results st = (Inr rs, st') \<Longrightarrow>
     events st' = events st @ map (\<lambda>c. Task_call a b c db) cs \<and>
     (\<exists>new. rs = results @ new \<and>
        list_all2 (\<lambda>c r. (\<exists>info. r = success_result a b c info) \<or> (\<exists>err. r = failed_result c err)) cs new)"
proof (induction cs arbitrary: results st)
  case Nil
  then show ?case by simp
next
  case (Cons c cs)
  obtain r1 st1 where t: "try_company env a b db c st = (r1, st1)" by force
  note ev = try_company_frame(1)[OF t]
  show ?case
  proof (cases r1)
    case (Inl e1)
    with Cons.prems t show ?thesis by simp
  next
    case (Inr x)
    with Cons.prems t have "company_loop env a b db cs (results @ [x]) st1 = (Inr rs, st')" by simp
    from Cons.IH[OF this] obtain new where new: "events st' = events st1 @ map (\<lambda>c. Task_call a b c db) cs"
      "rs = (results @ [x]) @ new"
      "list_all2 (\<lambda>c r. (\<exists>info. r = success_result a b c info) \<or> (\<exists>err. r = failed_result c err)) cs new"
      by blast
    from t Inr have x: "(\<exists>info. x = success_result a b c info) \<or> (\<exists>err. x = failed_result c err)"
      using try_company_Inr by blast
    have "rs = results @ (x # new)" using new(2) by simp
    moreover have "list_all2 (\<lambda>c r. (\<exists>info. r = success_result a b c info) \<or> (\<exists>err. r = failed_result c err)) (c # cs) (x # new)"
      using x new(3) by simp
    moreover have "events st' = events st @ map (\<lambda>c. Task_call a b c db) (c # cs)"
      using new(1) ev by simp
    ultimately show ?thesis by blast
  qed
qed

lemma company_loop_storage:
  assumes pure: "\<And>db a b c w. snd (run_pipeline env db a b c w) = w"
  shows "company_loop env a b db cs results st = (r, st') \<Longrightarrow> storage st' = storage st"
proof (induction cs arbitrary: results st)
  case Nil
  then show ?case by simp
next
  case (Cons c cs)
  obtain r1 st1 where t: "try_company env a b db c st = (r1, st1)" by force
  have s1: "storage st1 = storage st" using try_company_frame(3)[OF t] pure by simp
  show ?case
  proof (cases r1)
    case (Inl e1)
    with Cons.prems t s1 show ?thesis by simp
  next
    case (Inr x)
    with Cons.prems t have "company_loop env a b db cs (results @ [x]) st1 = (r, st')" by simp
    from Cons.IH[OF this] s1 show ?thesis by simp
  qed
qed

lemma task_calls_append: "task_calls (xs @ ys) = task_calls xs @ task_calls ys"
  by (induction xs rule: task_calls.induct) simp_all

lemma task_calls_calls: "task_calls (map (\<lambda>c. Task_call a b c db) cs) = map (\<lambda>c. (a, b, c)) cs"
  by (induction cs) simp_all

lemma flow_empty_window:
  assumes "get_next_load_date env st (START_DATE env) = Inr (date_min, date_max)"
    and "strptime env date_min = Inr x" and "strptime env date_max = Inr y"
    and "datetime_gt x y"
  shows "cfpb_complaints_incremental_flow env db st = (Inr (skipped_summary date_max), st)"
  using assms by (simp add: cfpb_complaints_incremental_flow_def)

lemma flow_nonempty_window:
  assumes "get_next_load_date env st (START_DATE env) = Inr (date_min, date_max)"
    and "strptime env date_min = Inr x" and "strptime env date_max = Inr y"
    and "\<not> datetime_gt x y"
  shows "cfpb_complaints_incremental_flow env db st =
     (case company_loop env date_min date_max db (COMPANIES env) [] st of
        (Inl e, st') \<Rightarrow> (Inl e, st')
      | (Inr results, st') \<Rightarrow>
          (Inr (run_summary env date_min date_max results),
           if length (filter (has_status ''success'') results) = length (COMPANIES env)
           then update_last_loaded_date date_max st' else st'))"
  using assms by (simp add: cfpb_complaints_incremental_flow_def Let_def split: prod.splits sum.splits)

lemma success_result_status:
  "has_status ''success'' (success_result a b c info)"
  "\<not> has_status ''failed'' (success_result a b c info)"
  by (simp_all add: has_status_def success_result_def)

lemma failed_result_status:
  "has_status ''failed'' (failed_result c err)"
  "\<not> has_status ''success'' (failed_result c err)"
  by (simp_all add: has_status_def failed_result_def)

lemma success_result_fields:
  "dict_keys (success_result a b c info) = [''company'', ''status'', ''date_range'', ''info'']"
  "map_of (success_result a b c info) ''company'' = Some c"
  "map_of (success_result a b c info) ''date_range'' = Some (a @ '' to '' @ b)"
  "map_of (success_result a b c info) ''info'' = Some info"
  "map_of (success_result a b c info) ''error'' = None"
  by (simp_all add: dict_keys_def success_result_def)

lemma failed_result_fields:
  "dict_keys (failed_result c err) = [''company'', ''status'', ''error'']"
  "map_of (failed_result c err) ''company'' = Some c"
  "map_of (failed_result c err) ''error'' = Some err"
  "map_of (failed_result c err) ''date_range'' = None"
  "map_of (failed_result c err) ''info'' = None"
  by (simp_all add: dict_keys_def failed_result_def)

lemma filter_partition_length:
  "(\<forall>r\<in>set rs. P r \<noteq> Q r) \<Longrightarrow> length (filter P rs) + length (filter Q rs) = length rs"
  by (induction rs) auto

lemma list_all2_right_all:
  assumes "list_all2 R cs rs" and "\<And>c r. R c r \<Longrightarrow> P r"
  shows "\<forall>r\<in>set rs. P r"
  using assms(1) by (induction rule: list_all2_induct) (simp_all add: assms(2))


lemma flow_cases:
  assumes "cfpb_complaints_incremental_flow env db st = (res, st')"
  shows "(st' = st \<and> (\<exists>e. res = Inl e))
       \<or> (st' = st \<and> (\<exists>date_min date_max x y.
              get_next_load_date env st (START_DATE env) = Inr (date_min, date_max) \<and>
              strptime env date_min = Inr x \<and> strptime env date_max = Inr y \<and>
              datetime_gt x y \<and> res = Inr (skipped_summary date_max)))
       \<or> (\<exists>date_min date_max x y r st1.
              get_next_load_date env st (START_DATE env) = Inr (date_min, date_max) \<and>
              strptime env date_min = Inr x \<and> strptime env date_max = Inr y \<and>
              \<not> datetime_gt x y \<and>
              company_loop env date_min date_max db (COMPANIES env) [] st = (r, st1) \<and>
              (case r of
                 Inl e \<Rightarrow> res = Inl e \<and> st' = st1
               | Inr results \<Rightarrow>
                   res = Inr (run_summary env date_min date_max results) \<and>
                   st' = (if length (filter (has_status ''success'') results) = length (COMPANIES env)
                          then update_last_loaded_date date_max st1 else st1)))"
proof (cases "get_next_load_date env st (START_DATE env)")
  case (Inl e)
  with assms show ?thesis by (auto simp: cfpb_complaints_incremental_flow_def)
next
  case (Inr p)
  obtain date_min date_max where p: "p = (date_min, date_max)" by (cases p)
  note g = Inr[unfolded p]
  show ?thesis
  proof (cases "strptime env date_min")
    case (Inl e)
    with assms g show ?thesis by (auto simp: cfpb_complaints_incremental_flow_def)
  next
    case x: (Inr x)
    show ?thesis
    proof (cases "strptime env date_max")
      case (Inl e)
      with assms g x show ?thesis by (auto simp: cfpb_complaints_incremental_flow_def)
    next
      case y: (Inr y)
      show ?thesis
      proof (cases "datetime_gt x y")
        case True
        from flow_empty_window[OF g x y True, of db] assms
        have "st' = st" "res = Inr (skipped_summary date_max)" by simp_all
        with g x y True show ?thesis by blast
      next
        case False
        obtain r st1 where l: "company_loop env date_min date_max db (COMPANIES env) [] st = (r, st1)"
          by force
        have "case r of
                 Inl e \<Rightarrow> res = Inl e \<and> st' = st1
               | Inr results \<Rightarrow>
                   res = Inr (run_summary env date_min date_max results) \<and>
                   st' = (if length (filter (has_status ''success'') results) = length (COMPANIES env)
                          then update_last_loaded_date date_max st1 else st1)"
          using flow_nonempty_window[OF g x y False, of db] assms l
          by (cases r) auto
        with g x y False l show ?thesis by blast
      qed
    qed
  qed
qed

lemma skipped_summary_status: "map_of (skipped_summary d) ''status'' = Some (PyStr ''skipped'')"
  by (simp add: skipped_summary_def)

lemma flow_summary:
  assumes "cfpb_complaints_incremental_flow env db st = (Inr summary, st')"
    and "map_of summary ''status'' \<noteq> Some (PyStr ''skipped'')"
  shows "\<exists>date_min date_max x y results st1.
           get_next_load_date env st (START_DATE env) = Inr (date_min, date_max) \<and>
           strptime env date_min = Inr x \<and> strptime env date_max = Inr y \<and>
           \<not> datetime_gt x y \<and>
           company_loop env date_min date_max db (COMPANIES env) [] st = (Inr results, st1) \<and>
           summary = run_summary env date_min date_max results \<and>
           st' = (if length (filter (has_status ''success'') results) = length (COMPANIES env)
                  then update_last_loaded_date date_max st1 else st1)"
  using flow_cases[OF assms(1)]
proof (elim disjE conjE exE)
  fix e :: py_exc
  assume "(Inr summary :: py_exc + py_dict) = Inl e"
  then show ?thesis by simp
next
  fix date_max
  assume "(Inr summary :: py_exc + py_dict) = Inr (skipped_summary date_max)"
  with assms(2) skipped_summary_status show ?thesis by simp
next
  fix date_min date_max x y r st1
  assume w: "get_next_load_date env st (START_DATE env) = Inr (date_min, date_max)"
       "strptime env date_min = Inr x" "strptime env date_max = Inr y" "\<not> datetime_gt x y"
    and l: "company_loop env date_min date_max db (COMPANIES env) [] st = (r, st1)"
    and c: "case r of
                 Inl e \<Rightarrow> Inr summary = (Inl e :: py_exc + py_dict) \<and> st' = st1
               | Inr results \<Rightarrow>
                   Inr summary = (Inr (run_summary env date_min date_max results) :: py_exc + py_dict) \<and>
                   st' = (if length (filter (has_status ''success'') results) = length (COMPANIES env)
                          then update_last_loaded_date date_max st1 else st1)"
  from c obtain results where "r = Inr results" "summary = run_summary env date_min date_max results"
    "st' = (if length (filter (has_status ''success'') results) = length (COMPANIES env)
                          then update_last_loaded_date date_max st1 else st1)"
    by (cases r) auto
  with w l show ?thesis by blast
qed



lemma flow_summary_results:
  assumes "cfpb_complaints_incremental_flow env db st = (Inr summary, st')"
    and "map_of summary ''status'' \<noteq> Some (PyStr ''skipped'')"
  shows "\<exists>date_min date_max results.
           summary = run_summary env date_min date_max results \<and>
           list_all2 (\<lambda>c r. (\<exists>info. r = success_result date_min date_max c info) \<or>
                            (\<exists>err. r = failed_result c err)) (COMPANIES env) results"
proof -
  from flow_summary[OF assms] obtain date_min date_max results st1 where
    loop: "company_loop env date_min date_max db (COMPANIES env) [] st = (Inr results, st1)"
    and s: "summary = run_summary env date_min date_max results" by blast
  from company_loop_Inr[OF loop] s show ?thesis by auto
qed

lemma run_summary_fields:
  "map_of (run_summary env a b rs) ''status'' = None"
  "map_of (run_summary env a b rs) ''total_companies'' = Some (PyInt (int (length (COMPANIES env))))"
  "map_of (run_summary env a b rs) ''successful'' = Some (PyInt (int (length (filter (has_status ''success'') rs))))"
  "map_of (run_summary env a b rs) ''failed'' = Some (PyInt (int (length (filter (has_status ''failed'') rs))))"
  "map_of (run_summary env a b rs) ''results'' = Some (PyList rs)"
  by (simp_all add: run_summary_def)

lemma result_status_exclusive:
  assumes "(\<exists>info. r = success_result a b c info) \<or> (\<exists>err. r = failed_result c err)"
  shows "has_status ''success'' r \<noteq> has_status ''failed'' r"
  using assms success_result_status failed_result_status by blast

lemma result_company:
  assumes "(\<exists>info. r = success_result a b c info) \<or> (\<exists>err. r = failed_result c err)"
  shows "map_of r ''company'' = Some c"
  using assms success_result_fields(2) failed_result_fields(2) by blast

lemma result_keys:
  assumes "(\<exists>info. r = success_result a b c info) \<or> (\<exists>err. r = failed_result c err)"
  shows "(has_status ''success'' r \<and>
            dict_keys r = [''company'', ''status'', ''date_range'', ''info''])
       \<or> (has_status ''failed'' r \<and>
            dict_keys r = [''company'', ''status'', ''error''] \<and> map_of r ''date_range'' = None)"
  using assms
  by (elim disjE exE)
     (simp_all only: success_result_status(1) failed_result_status(1)
        success_result_fields(1) failed_result_fields(1,4) simp_thms)

lemma list_all2_map_right:
  assumes "list_all2 R cs rs" and "\<And>c r. R c r \<Longrightarrow> f r = g c"
  shows "map f rs = map g cs"
  using assms(1) by (induction rule: list_all2_induct) (simp_all add: assms(2))

lemma length_filter_all:
  "(length (filter P xs) = length xs) = (\<forall>x\<in>set xs. P x)"
proof
  assume eq: "length (filter P xs) = length xs"
  show "\<forall>x\<in>set xs. P x"
  proof (rule ccontr)
    assume "\<not> (\<forall>x\<in>set xs. P x)"
    then obtain x where "x \<in> set xs" "\<not> P x" by blast
    then have "length (filter P xs) < length xs" by (rule length_filter_less)
    with eq show False by simp
  qed
next
  assume "\<forall>x\<in>set xs. P x"
  then have "filter P xs = xs" by (simp add: filter_id_conv)
  then show "length (filter P xs) = length xs" by simp
qed

lemma watermark_writes_prefix:
  assumes "events st1 = events st @ map (\<lambda>c. Task_call a b c db) cs"
  shows "watermark_writes (events st1) = watermark_writes (events st)"
  using assms by (simp add: watermark_writes_append watermark_writes_calls)

lemma company_loop_writes:
  assumes "company_loop env a b db cs results st = (r, st1)"
  shows "watermark_writes (events st1) = watermark_writes (events st)"
proof -
  from company_loop_events_prefix[OF assms] obtain k where
    "events st1 = events st @ map (\<lambda>c. Task_call a b c db) (take k cs)" by blast
  then show ?thesis by (rule watermark_writes_prefix)
qed

lemma update_last_loaded_date_effect:
  "watermark (update_last_loaded_date d st) = Some d"
  "events (update_last_loaded_date d st) = events st @ [Watermark_write d]"
  "storage (update_last_loaded_date d st) = storage st"
  "watermark_writes (events (update_last_loaded_date d st)) = watermark_writes (events st) @ [d]"
  by (simp_all add: update_last_loaded_date_def watermark_writes_append)

lemma flow_raises_only_uncaught:
  assumes "get_next_load_date env st (START_DATE env) = Inr (date_min, date_max)"
    and "strptime env date_min = Inr x" and "strptime env date_max = Inr y"
    and "cfpb_complaints_incremental_flow env db st = (Inl e, st')"
  shows "\<not> is_Exception e"
proof (cases "datetime_gt x y")
  case True
  from flow_empty_window[OF assms(1-3) True, of db] assms(4) show ?thesis by simp
next
  case False
  obtain r st1 where l: "company_loop env date_min date_max db (COMPANIES env) [] st = (r, st1)"
    by force
  show ?thesis
  proof (cases r)
    case (Inl e1)
    with flow_nonempty_window[OF assms(1-3) False, of db] assms(4) l have "e1 = e" by simp
    with company_loop_Inl[OF l[unfolded Inl]] show ?thesis by simp
  next
    case (Inr results)
    with flow_nonempty_window[OF assms(1-3) False, of db] assms(4) l show ?thesis by simp
  qed
qed

lemma try_company_caught:
  assumes "extract_and_load_complaints_task env date_min date_max company database_path (storage st)
             = (Inl e, w')"
    and "is_Exception e"
  shows "try_company env date_min date_max database_path company st =
           (Inr [(''company'', company), (''status'', ''failed''), (''error'', str_exc e)],
            st\<lparr>events := events st @ [Task_call date_min date_max company database_path],
               storage := w'\<rparr>)"
  using assms by (simp add: try_company_def Let_def)

lemma flow_calls_and_results:
  assumes "get_next_load_date env st (START_DATE env) = Inr (date_min, date_max)"
    and "strptime env date_min = Inr x" and "strptime env date_max = Inr y"
    and "\<not> datetime_gt x y"
    and "cfpb_complaints_incremental_flow env db st = (Inr summary, st')"
  shows "task_calls (events st') =
           task_calls (events st) @ map (\<lambda>c. (date_min, date_max, c)) (COMPANIES env) \<and>
         (\<exists>results. map_of summary ''results'' = Some (PyList results) \<and>
            map (\<lambda>r. map_of r ''company'') results = map Some (COMPANIES env))"
proof -
  obtain r st1 where l: "company_loop env date_min date_max db (COMPANIES env) [] st = (r, st1)"
    by force
  from flow_nonempty_window[OF assms(1-4), of db] assms(5) l
  obtain results where r: "r = Inr results"
    and s: "summary = run_summary env date_min date_max results"
    and st': "st' = (if length (filter (has_status ''success'') results) = length (COMPANIES env)
                     then update_last_loaded_date date_max st1 else st1)"
    by (cases r) auto
  from company_loop_Inr[OF l[unfolded r]] have
    ev: "events st1 = events st @ map (\<lambda>c. Task_call date_min date_max c db) (COMPANIES env)"
    and shape: "list_all2 (\<lambda>c r. (\<exists>info. r = success_result date_min date_max c info) \<or>
                            (\<exists>err. r = failed_result c err)) (COMPANIES env) results" by auto
  have "task_calls (events st') = task_calls (events st1)"
    unfolding st' by (simp add: update_last_loaded_date_def task_calls_append)
  with ev have calls: "task_calls (events st') =
      task_calls (events st) @ map (\<lambda>c. (date_min, date_max, c)) (COMPANIES env)"
    by (simp add: task_calls_append task_calls_calls)
  have "map (\<lambda>r. map_of r ''company'') results = map Some (COMPANIES env)"
    by (rule list_all2_map_right[OF shape]) (rule result_company)
  with calls s show ?thesis by (simp add: run_summary_fields)
qed

lemma run_pipelines_length:
  "run_pipelines env db a b cs w = (os, w') \<Longrightarrow> length os = length cs"
proof (induction cs arbitrary: w os w')
  case Nil
  then show ?case by simp
next
  case (Cons c cs)
  obtain o1 w1 where t: "run_pipeline env db a b c w = (o1, w1)" by force
  obtain os1 w2 where r: "run_pipelines env db a b cs w1 = (os1, w2)" by force
  from Cons.prems t r have "os = o1 # os1" by simp
  with Cons.IH[OF r] show ?case by simp
qed

lemma try_company_pipeline:
  assumes "run_pipeline env db a b c (storage st) = (o1, w1)"
  shows "try_company env a b db c st =
           (if (\<forall>e. o1 = Inl e \<longrightarrow> is_Exception e)
            then Inr (recorded_result a b c o1) else Inl (projl o1),
            st\<lparr>events := events st @ [Task_call a b c db], storage := w1\<rparr>)"
  using assms
  by (cases o1)
     (simp_all add: try_company_def extract_and_load_complaints_task_def Let_def
        recorded_result_def)

lemma company_loop_run_pipelines:
  assumes "run_pipelines env db a b cs (storage st) = (os, w)"
    and "\<forall>out\<in>set os. \<forall>e. out = Inl e \<longrightarrow> is_Exception e"
  shows "company_loop env a b db cs results st =
           (Inr (results @ map2 (recorded_result a b) cs os),
            st\<lparr>events := events st @ map (\<lambda>c. Task_call a b c db) cs, storage := w\<rparr>)"
  using assms
proof (induction cs arbitrary: st os results w)
  case Nil
  then show ?case by simp
next
  case (Cons c cs)
  obtain o1 w1 where t: "run_pipeline env db a b c (storage st) = (o1, w1)"
    by force
  obtain os1 w2 where r: "run_pipelines env db a b cs w1 = (os1, w2)" by force
  from Cons.prems(1) t r have os: "os = o1 # os1" and w: "w = w2" by simp_all
  from Cons.prems(2) os have c1: "\<forall>e. o1 = Inl e \<longrightarrow> is_Exception e"
    and cs1: "\<forall>out\<in>set os1. \<forall>e. out = Inl e \<longrightarrow> is_Exception e" by simp_all
  let ?st1 = "st\<lparr>events := events st @ [Task_call a b c db], storage := w1\<rparr>"
  from try_company_pipeline[OF t] c1
  have tc: "try_company env a b db c st = (Inr (recorded_result a b c o1), ?st1)" by simp
  have r': "run_pipelines env db a b cs (storage ?st1) = (os1, w2)" using r by simp
  from Cons.IH[OF r' cs1, of "results @ [recorded_result a b c o1]"] tc os w
  show ?case by simp
qed

lemma company_loop_Inr_run_pipelines:
  assumes "company_loop env a b db cs results st = (Inr rs, st')"
    and "run_pipelines env db a b cs (storage st) = (os, w)"
  shows "(\<forall>out\<in>set os. \<forall>e. out = Inl e \<longrightarrow> is_Exception e)"
  using assms
proof (induction cs arbitrary: st os results w)
  case Nil
  then show ?case by simp
next
  case (Cons c cs)
  obtain o1 w1 where t: "run_pipeline env db a b c (storage st) = (o1, w1)"
    by force
  obtain os1 w2 where r: "run_pipelines env db a b cs w1 = (os1, w2)" by force
  from Cons.prems(2) t r have os: "os = o1 # os1" by simp
  let ?st1 = "st\<lparr>events := events st @ [Task_call a b c db], storage := w1\<rparr>"
  have c1: "\<forall>e. o1 = Inl e \<longrightarrow> is_Exception e"
  proof (rule ccontr)
    assume "\<not> (\<forall>e. o1 = Inl e \<longrightarrow> is_Exception e)"
    with try_company_pipeline[OF t] have "try_company env a b db c st = (Inl (projl o1), ?st1)" by simp
    with Cons.prems(1) show False by simp
  qed
  with try_company_pipeline[OF t]
  have tc: "try_company env a b db c st = (Inr (recorded_result a b c o1), ?st1)" by simp
  with Cons.prems(1) have l: "company_loop env a b db cs (results @ [recorded_result a b c o1]) ?st1
      = (Inr rs, st')" by simp
  have r': "run_pipelines env db a b cs (storage ?st1) = (os1, w2)" using r by simp
  from Cons.IH[OF l r'] c1 os show ?case by simp
qed

lemma recorded_result_status:
  "has_status ''success'' (recorded_result a b c out) = (\<not> isl out)"
  by (cases out) (simp_all add: recorded_result_def has_status_def)

lemma run_pipelines_all_success:
  "run_pipelines env db a b cs w = (os, w') \<Longrightarrow>
     (\<forall>r\<in>set (map2 (recorded_result a b) cs os). has_status ''success'' r) = (\<forall>out\<in>set os. \<not> isl out)"
proof (induction cs arbitrary: w os w')
  case Nil
  then show ?case by simp
next
  case (Cons c cs)
  obtain o1 w1 where t: "run_pipeline env db a b c w = (o1, w1)" by force
  obtain os1 w2 where r: "run_pipelines env db a b cs w1 = (os1, w2)" by force
  from Cons.prems t r have os: "os = o1 # os1" by simp
  from Cons.IH[OF r] recorded_result_status os show ?case by simp
qed

lemma flow_all_succeeded:
  assumes "get_next_load_date env st (START_DATE env) = Inr (date_min, date_max)"
    and "strptime env date_min = Inr x" and "strptime env date_max = Inr y"
    and "\<not> datetime_gt x y"
    and "cfpb_complaints_incremental_flow env db st = (res, st')"
    and "run_pipelines env db date_min date_max (COMPANIES env) (storage st) = (outcomes, w)"
  shows "(\<exists>results. res = Inr (run_summary env date_min date_max results) \<and>
            (\<forall>r\<in>set results. has_status ''success'' r))
         \<longrightarrow> (\<forall>out\<in>set outcomes. \<not> isl out)"
    and "(\<forall>out\<in>set outcomes. \<forall>e. out = Inl e \<longrightarrow> is_Exception e)
         \<longrightarrow> res = Inr (run_summary env date_min date_max
                          (map2 (recorded_result date_min date_max) (COMPANIES env) outcomes)) \<and>
             storage st' = w \<and>
             map (\<lambda>r. map_of r ''company'') (map2 (recorded_result date_min date_max) (COMPANIES env) outcomes)
               = map Some (COMPANIES env)"
proof -
  let ?rs = "map2 (recorded_result date_min date_max) (COMPANIES env) outcomes"
  note fl = flow_nonempty_window[OF assms(1-4), of db]
  have caught: "res = Inr (run_summary env date_min date_max ?rs) \<and> storage st' = w \<and>
             map (\<lambda>r. map_of r ''company'') ?rs = map Some (COMPANIES env)"
    if c: "\<forall>out\<in>set outcomes. \<forall>e. out = Inl e \<longrightarrow> is_Exception e"
  proof -
    let ?st1 = "st\<lparr>events := events st @ map (\<lambda>c. Task_call date_min date_max c db) (COMPANIES env),
                  storage := w\<rparr>"
    from company_loop_run_pipelines[OF assms(6) c, of "[]"]
    have l: "company_loop env date_min date_max db (COMPANIES env) [] st = (Inr ?rs, ?st1)" by simp
    with fl assms(5) have res: "res = Inr (run_summary env date_min date_max ?rs)"
      and st': "st' = (if length (filter (has_status ''success'') ?rs) = length (COMPANIES env)
                       then update_last_loaded_date date_max ?st1 else ?st1)" by simp_all
    from st' have sto: "storage st' = w" by (simp add: update_last_loaded_date_def)
    from company_loop_Inr[OF l] have
      shape: "list_all2 (\<lambda>c r. (\<exists>info. r = success_result date_min date_max c info) \<or>
                            (\<exists>err. r = failed_result c err)) (COMPANIES env) ?rs" by auto
    have "map (\<lambda>r. map_of r ''company'') ?rs = map Some (COMPANIES env)"
      by (rule list_all2_map_right[OF shape]) (rule result_company)
    with res sto show ?thesis by simp
  qed
  then show "(\<forall>out\<in>set outcomes. \<forall>e. out = Inl e \<longrightarrow> is_Exception e)
         \<longrightarrow> res = Inr (run_summary env date_min date_max ?rs) \<and> storage st' = w \<and>
             map (\<lambda>r. map_of r ''company'') ?rs = map Some (COMPANIES env)" by blast
  show "(\<exists>results. res = Inr (run_summary env date_min date_max results) \<and>
            (\<forall>r\<in>set results. has_status ''success'' r))
         \<longrightarrow> (\<forall>out\<in>set outcomes. \<not> isl out)"
  proof
    assume "\<exists>results. res = Inr (run_summary env date_min date_max results) \<and>
            (\<forall>r\<in>set results. has_status ''success'' r)"
    then obtain results where res: "res = Inr (run_summary env date_min date_max results)"
      and all: "\<forall>r\<in>set results. has_status ''success'' r" by blast
    obtain r st1 where l: "company_loop env date_min date_max db (COMPANIES env) [] st = (r, st1)"
      by force
    from fl assms(5) l res obtain results' where r: "r = Inr results'"
      and "run_summary env date_min date_max results' = run_summary env date_min date_max results"
      by (cases r) auto
    then have eq: "results' = results" by (simp add: run_summary_def)
    from company_loop_Inr_run_pipelines[OF l[unfolded r] assms(6)]
    have c: "\<forall>out\<in>set outcomes. \<forall>e. out = Inl e \<longrightarrow> is_Exception e" .
    from caught[OF c] res have "results = ?rs" by (simp add: run_summary_def)
    with all run_pipelines_all_success[OF assms(6)] show "\<forall>out\<in>set outcomes. \<not> isl out" by simp
  qed
qed

lemma watermark_advance_via_summary:
  assumes "get_next_load_date env st (START_DATE env) = Inr (date_min, date_max)"
    and "strptime env date_min = Inr x" and "strptime env date_max = Inr y"
    and "\<not> datetime_gt x y"
    and "cfpb_complaints_incremental_flow env db st = (res, st')"
  shows "((watermark_writes (events st') = watermark_writes (events st) @ [date_max] \<and>
           watermark st' = Some date_max)
          \<longleftrightarrow> (\<exists>results. res = Inr (run_summary env date_min date_max results) \<and>
                 map (\<lambda>r. map_of r ''company'') results = map Some (COMPANIES env) \<and>
                 (\<forall>r\<in>set results. has_status ''success'' r)))
       \<and> ((\<exists>results. res = Inr (run_summary env date_min date_max results) \<and>
                 map (\<lambda>r. map_of r ''company'') results = map Some (COMPANIES env) \<and>
                 (\<forall>r\<in>set results. has_status ''success'' r))
          \<longleftrightarrow> (\<exists>summary n. res = Inr summary \<and>
                 map_of summary ''successful'' = Some (PyInt n) \<and>
                 map_of summary ''total_companies'' = Some (PyInt n)))
       \<and> ((\<exists>results. res = Inr (run_summary env date_min date_max results) \<and>
                 (\<forall>r\<in>set results. has_status ''success'' r))
          \<or> (watermark st' = watermark st \<and>
              watermark_writes (events st') = watermark_writes (events st)))
       \<and> ((\<exists>results. res = Inr (run_summary env date_min date_max results) \<and>
                 (\<exists>r\<in>set results. has_status ''failed'' r))
          \<longrightarrow> watermark st' = watermark st)"
proof -
  obtain r st1 where l: "company_loop env date_min date_max db (COMPANIES env) [] st = (r, st1)"
    by force
  note wm = company_loop_watermark[OF l] and wr = company_loop_writes[OF l]
  show ?thesis
  proof (cases r)
    case (Inl e)
    with flow_nonempty_window[OF assms(1-4), of db] assms(5) l
    have res: "res = Inl e" and st': "st' = st1" by simp_all
    from res st' wm wr show ?thesis by simp
  next
    case (Inr results)
    with flow_nonempty_window[OF assms(1-4), of db] assms(5) l
    have res: "res = Inr (run_summary env date_min date_max results)"
      and st': "st' = (if length (filter (has_status ''success'') results) = length (COMPANIES env)
                     then update_last_loaded_date date_max st1 else st1)" by simp_all
    from company_loop_Inr[OF l[unfolded Inr]] have
      shape: "list_all2 (\<lambda>c r. (\<exists>info. r = success_result date_min date_max c info) \<or>
                            (\<exists>err. r = failed_result c err)) (COMPANIES env) results" by auto
    then have len: "length results = length (COMPANIES env)" by (simp add: list_all2_lengthD)
    have comp: "map (\<lambda>r. map_of r ''company'') results = map Some (COMPANIES env)"
      by (rule list_all2_map_right[OF shape]) (rule result_company)
    have all: "(length (filter (has_status ''success'') results) = length (COMPANIES env))
        = (\<forall>r\<in>set results. has_status ''success'' r)"
      using length_filter_all[of "has_status ''success''" results] len by simp
    have inj: "\<And>rs. (Inr (run_summary env date_min date_max rs) = res) = (rs = results)"
      unfolding res by (auto simp: run_summary_def)
    show ?thesis
    proof (cases "\<forall>r\<in>set results. has_status ''success'' r")
      case True
      with all st' have "st' = update_last_loaded_date date_max st1" by simp
      with wr have adv: "watermark_writes (events st') = watermark_writes (events st) @ [date_max]"
        "watermark st' = Some date_max"
        by (simp_all add: update_last_loaded_date_def watermark_writes_append)
      have B: "\<exists>results. res = Inr (run_summary env date_min date_max results) \<and>
                 map (\<lambda>r. map_of r ''company'') results = map Some (COMPANIES env) \<and>
                 (\<forall>r\<in>set results. has_status ''success'' r)"
        using res comp True by blast
      have C: "\<exists>summary n. res = Inr summary \<and>
                 map_of summary ''successful'' = Some (PyInt n) \<and>
                 map_of summary ''total_companies'' = Some (PyInt n)"
        using res all True by (simp add: run_summary_fields)
      have ex: "\<forall>r\<in>set results. has_status ''success'' r \<noteq> has_status ''failed'' r"
        by (rule list_all2_right_all[OF shape]) (rule result_status_exclusive)
      have nF: "\<not> (\<exists>rs. res = Inr (run_summary env date_min date_max rs) \<and>
                 (\<exists>r\<in>set rs. has_status ''failed'' r))"
        using True ex inj by metis
      from adv B C nF show ?thesis by blast
    next
      case False
      with all st' have "st' = st1" by simp
      with wm wr have same: "watermark st' = watermark st"
        "watermark_writes (events st') = watermark_writes (events st)" by simp_all
      have nB: "\<not> (\<exists>rs. res = Inr (run_summary env date_min date_max rs) \<and>
                 map (\<lambda>r. map_of r ''company'') rs = map Some (COMPANIES env) \<and>
                 (\<forall>r\<in>set rs. has_status ''success'' r))"
        using False inj by metis
      have nC: "\<not> (\<exists>summary n. res = Inr summary \<and>
                 map_of summary ''successful'' = Some (PyInt n) \<and>
                 map_of summary ''total_companies'' = Some (PyInt n))"
        using res all False by (simp add: run_summary_fields)
      have nA: "\<not> (watermark_writes (events st') = watermark_writes (events st) @ [date_max] \<and>
           watermark st' = Some date_max)"
        using same by simp
      from nA same nB nC show ?thesis by blast
    qed
  qed
qed

section \<open>The claims\<close>

subsection \<open>Empty window\<close>

text \<open>
  Claim C2. When the computed window is empty, that is the parsed date_min is later than
  the parsed date_max, the flow returns a summary whose status is skipped and leaves the
  world as it was: no task invocation and no watermark write is added to the trace.
\<close>

theorem empty_window_is_skipped:
  assumes "get_next_load_date env st (START_DATE env) = Inr (date_min, date_max)"
    and "strptime env date_min = Inr x" and "strptime env date_max = Inr y"
    and "datetime_gt x y"
  shows "\<exists>summary st'. cfpb_complaints_incremental_flow env db st = (Inr summary, st') \<and>
           map_of summary ''status'' = Some (PyStr ''skipped'') \<and>
           task_calls (events st') = task_calls (events st) \<and>
           watermark_writes (events st') = watermark_writes (events st) \<and>
           st' = st"
  using flow_empty_window[OF assms] by (simp add: skipped_summary_def)

theorem empty_window_is_skipped_witness:
  "get_next_load_date (example_env [''JPM'', ''CITI''] ''2024-01-10'')
      (example_world (Some ''2024-01-10'')) (START_DATE (example_env [''JPM'', ''CITI''] ''2024-01-10''))
     = Inr (''2024-01-11'', ''2024-01-10'') \<and>
   strptime (example_env [''JPM'', ''CITI''] ''2024-01-10'') ''2024-01-11'' = Inr (2024, 1, 11) \<and>
   strptime (example_env [''JPM'', ''CITI''] ''2024-01-10'') ''2024-01-10'' = Inr (2024, 1, 10) \<and>
   datetime_gt (2024, 1, 11) (2024, 1, 10) \<and>
   (\<exists>summary st'. cfpb_complaints_incremental_flow (example_env [''JPM'', ''CITI''] ''2024-01-10'') ''db''
        (example_world (Some ''2024-01-10'')) = (Inr summary, st') \<and>
      map_of summary ''status'' = Some (PyStr ''skipped'') \<and>
      task_calls (events st') = task_calls (events (example_world (Some ''2024-01-10''))) \<and>
      watermark_writes (events st') = watermark_writes (events (example_world (Some ''2024-01-10''))) \<and>
      st' = example_world (Some ''2024-01-10''))"
proof -
  let ?E = "example_env [''JPM'', ''CITI''] ''2024-01-10''"
  let ?W = "example_world (Some ''2024-01-10'')"
  have h1: "get_next_load_date ?E ?W (START_DATE ?E) = Inr (''2024-01-11'', ''2024-01-10'')"
    by code_simp
  have h2: "strptime ?E ''2024-01-11'' = Inr (2024, 1, 11)" by code_simp
  have h3: "strptime ?E ''2024-01-10'' = Inr (2024, 1, 10)" by code_simp
  have h4: "datetime_gt (2024, 1, 11) (2024, 1, 10)" by (simp add: datetime_gt_def)
  from empty_window_is_skipped[OF h1 h2 h3 h4, of "''db''"] h1 h2 h3 h4 show ?thesis by blast
qed

text \<open>
  Claim C10. When the window is empty, the value returned is exactly the dict with the
  keys status, message and last_date, where status is skipped and last_date is the
  computed date_max. It has none of the keys date_range, total_companies, successful,
  failed and results, so its keys differ from those of the summary of a run that
  processed the companies.
\<close>

theorem skipped_summary_shape:
  assumes "get_next_load_date env st (START_DATE env) = Inr (date_min, date_max)"
    and "strptime env date_min = Inr x" and "strptime env date_max = Inr y"
    and "datetime_gt x y"
  shows "\<exists>summary. fst (cfpb_complaints_incremental_flow env db st) = Inr summary \<and>
           summary = [(''status'', PyStr ''skipped''),
                      (''message'', PyStr ''Already up to date''),
                      (''last_date'', PyStr date_max)] \<and>
           dict_keys summary = [''status'', ''message'', ''last_date''] \<and>
           map_of summary ''date_range'' = None \<and>
           map_of summary ''total_companies'' = None \<and>
           map_of summary ''successful'' = None \<and>
           map_of summary ''failed'' = None \<and>
           map_of summary ''results'' = None \<and>
           dict_keys summary \<noteq> dict_keys (run_summary env date_min date_max results)"
  using flow_empty_window[OF assms] by (simp add: skipped_summary_def dict_keys_def run_summary_def)

theorem skipped_summary_shape_witness:
  "get_next_load_date (example_env [''JPM''] ''2024-03-01'')
      (example_world (Some ''2024-03-01'')) (START_DATE (example_env [''JPM''] ''2024-03-01''))
     = Inr (''2024-03-02'', ''2024-03-01'') \<and>
   strptime (example_env [''JPM''] ''2024-03-01'') ''2024-03-02'' = Inr (2024, 3, 2) \<and>
   strptime (example_env [''JPM''] ''2024-03-01'') ''2024-03-01'' = Inr (2024, 3, 1) \<and>
   datetime_gt (2024, 3, 2) (2024, 3, 1) \<and>
   fst (cfpb_complaints_incremental_flow (example_env [''JPM''] ''2024-03-01'') ''db''
          (example_world (Some ''2024-03-01'')))
     = Inr [(''status'', PyStr ''skipped''),
            (''message'', PyStr ''Already up to date''),
            (''last_date'', PyStr ''2024-03-01'')]"
proof -
  let ?E = "example_env [''JPM''] ''2024-03-01''"
  let ?W = "example_world (Some ''2024-03-01'')"
  have h1: "get_next_load_date ?E ?W (START_DATE ?E) = Inr (''2024-03-02'', ''2024-03-01'')"
    by code_simp
  have h2: "strptime ?E ''2024-03-02'' = Inr (2024, 3, 2)" by code_simp
  have h3: "strptime ?E ''2024-03-01'' = Inr (2024, 3, 1)" by code_simp
  have h4: "datetime_gt (2024, 3, 2) (2024, 3, 1)" by (simp add: datetime_gt_def)
  from skipped_summary_shape[OF h1 h2 h3 h4, of "''db''"] h1 h2 h3 h4 show ?thesis by auto
qed

subsection \<open>The summary of a run that processed the companies\<close>

text \<open>
  Claim C8. In every summary the flow returns that is not the skipped one, successful
  plus failed equals total_companies, total_companies is the length of the configured
  company list, the results list has that length, and every result has exactly one of
  the statuses success and failed.
\<close>

theorem summary_counts:
  assumes "cfpb_complaints_incremental_flow env db st = (Inr summary, st')"
    and "map_of summary ''status'' \<noteq> Some (PyStr ''skipped'')"
  shows "\<exists>total successful failed results.
           map_of summary ''total_companies'' = Some (PyInt total) \<and>
           map_of summary ''successful'' = Some (PyInt successful) \<and>
           map_of summary ''failed'' = Some (PyInt failed) \<and>
           map_of summary ''results'' = Some (PyList results) \<and>
           successful + failed = total \<and>
           total = int (length (COMPANIES env)) \<and>
           int (length results) = total \<and>
           (\<forall>r\<in>set results. has_status ''success'' r \<noteq> has_status ''failed'' r)"
proof -
  from flow_summary_results[OF assms] obtain date_min date_max results where
    s: "summary = run_summary env date_min date_max results"
    and shape: "list_all2 (\<lambda>c r. (\<exists>info. r = success_result date_min date_max c info) \<or>
                            (\<exists>err. r = failed_result c err)) (COMPANIES env) results" by blast
  from shape have len: "length results = length (COMPANIES env)" by (simp add: list_all2_lengthD)
  have ex: "\<forall>r\<in>set results. has_status ''success'' r \<noteq> has_status ''failed'' r"
    by (rule list_all2_right_all[OF shape]) (rule result_status_exclusive)
  from filter_partition_length[OF ex] len
  have sum: "int (length (filter (has_status ''success'') results))
        + int (length (filter (has_status ''failed'') results)) = int (length (COMPANIES env))"
    by simp
  show ?thesis
    unfolding s run_summary_fields using sum len ex by simp
qed

theorem summary_counts_witness:
  "cfpb_complaints_incremental_flow (example_env [''JPM'', ''BAD'', ''CITI''] ''2024-01-10'') ''db''
      (example_world None)
     = (Inr (run_summary (example_env [''JPM'', ''BAD'', ''CITI''] ''2024-01-10'')
               ''2024-01-01'' ''2024-01-10''
               [success_result ''2024-01-01'' ''2024-01-10'' ''JPM'' ''loaded JPM'',
                failed_result ''BAD'' ''boom'',
                success_result ''2024-01-01'' ''2024-01-10'' ''CITI'' ''loaded CITI'']),
        \<lparr>watermark = None, storage = [''JPM'', ''CITI''],
         events = [Task_call ''2024-01-01'' ''2024-01-10'' ''JPM'' ''db'',
                   Task_call ''2024-01-01'' ''2024-01-10'' ''BAD'' ''db'',
                   Task_call ''2024-01-01'' ''2024-01-10'' ''CITI'' ''db'']\<rparr>) \<and>
   map_of (run_summary (example_env [''JPM'', ''BAD'', ''CITI''] ''2024-01-10'')
             ''2024-01-01'' ''2024-01-10''
             [success_result ''2024-01-01'' ''2024-01-10'' ''JPM'' ''loaded JPM'',
              failed_result ''BAD'' ''boom'',
              success_result ''2024-01-01'' ''2024-01-10'' ''CITI'' ''loaded CITI'']) ''status''
     \<noteq> Some (PyStr ''skipped'') \<and>
   (\<exists>total successful failed results.
      map_of (run_summary (example_env [''JPM'', ''BAD'', ''CITI''] ''2024-01-10'')
                ''2024-01-01'' ''2024-01-10''
                [success_result ''2024-01-01'' ''2024-01-10'' ''JPM'' ''loaded JPM'',
                 failed_result ''BAD'' ''boom'',
                 success_result ''2024-01-01'' ''2024-01-10'' ''CITI'' ''loaded CITI''])
         ''results'' = Some (PyList results) \<and>
      total = 3 \<and> successful = 2 \<and> failed = 1 \<and>
      successful + failed = total \<and> int (length results) = total)"
proof -
  let ?E = "example_env [''JPM'', ''BAD'', ''CITI''] ''2024-01-10''"
  let ?S = "run_summary ?E ''2024-01-01'' ''2024-01-10''
               [success_result ''2024-01-01'' ''2024-01-10'' ''JPM'' ''loaded JPM'',
                failed_result ''BAD'' ''boom'',
                success_result ''2024-01-01'' ''2024-01-10'' ''CITI'' ''loaded CITI'']"
  let ?W' = "\<lparr>watermark = None, storage = [''JPM'', ''CITI''],
         events = [Task_call ''2024-01-01'' ''2024-01-10'' ''JPM'' ''db'',
                   Task_call ''2024-01-01'' ''2024-01-10'' ''BAD'' ''db'',
                   Task_call ''2024-01-01'' ''2024-01-10'' ''CITI'' ''db'']\<rparr>"
  have h1: "cfpb_complaints_incremental_flow ?E ''db'' (example_world None) = (Inr ?S, ?W')"
    by code_simp
  have h2: "map_of ?S ''status'' \<noteq> Some (PyStr ''skipped'')"
    by (simp add: run_summary_fields)
  from summary_counts[OF h1 h2] obtain total successful failed results where
    c: "map_of ?S ''total_companies'' = Some (PyInt total)"
       "map_of ?S ''successful'' = Some (PyInt successful)"
       "map_of ?S ''failed'' = Some (PyInt failed)"
       "map_of ?S ''results'' = Some (PyList results)"
       "successful + failed = total" "total = int (length (COMPANIES ?E))"
       "int (length results) = total" by blast
  have "total = 3" using c(6) by (simp add: example_env_def)
  moreover have "successful = 2"
    using c(2) by (simp add: run_summary_fields success_result_status failed_result_status)
  moreover have "failed = 1" using c(5) calculation by simp
  ultimately show ?thesis using h1 h2 c(4,5,7) by blast
qed


text \<open>
  Claim C6, as stated, fails: a run with a non-empty window need not reach every
  company. Here the window is 2024-01-01 to 2024-01-10 and three companies are
  configured; the task is interrupted from the keyboard while loading the second one,
  the handler does not catch that, and the third company is never invoked.
\<close>

theorem interrupted_run_skips_remaining_companies:
  "get_next_load_date (example_env [''JPM'', ''STOP'', ''CITI''] ''2024-01-10'') (example_world None)
      (START_DATE (example_env [''JPM'', ''STOP'', ''CITI''] ''2024-01-10''))
     = Inr (''2024-01-01'', ''2024-01-10'') \<and>
   strptime (example_env [''JPM'', ''STOP'', ''CITI''] ''2024-01-10'') ''2024-01-01''
     = Inr (2024, 1, 1) \<and>
   strptime (example_env [''JPM'', ''STOP'', ''CITI''] ''2024-01-10'') ''2024-01-10''
     = Inr (2024, 1, 10) \<and>
   \<not> datetime_gt (2024, 1, 1) (2024, 1, 10) \<and>
   COMPANIES (example_env [''JPM'', ''STOP'', ''CITI''] ''2024-01-10'')
     = [''JPM'', ''STOP'', ''CITI''] \<and>
   task_calls (events (snd (cfpb_complaints_incremental_flow
        (example_env [''JPM'', ''STOP'', ''CITI''] ''2024-01-10'') ''db'' (example_world None))))
     = [(''2024-01-01'', ''2024-01-10'', ''JPM''), (''2024-01-01'', ''2024-01-10'', ''STOP'')] \<and>
   storage (snd (cfpb_complaints_incremental_flow
        (example_env [''JPM'', ''STOP'', ''CITI''] ''2024-01-10'') ''db'' (example_world None)))
     = [''JPM''] \<and>
   fst (cfpb_complaints_incremental_flow
        (example_env [''JPM'', ''STOP'', ''CITI''] ''2024-01-10'') ''db'' (example_world None))
     = Inl (PyExc ''KeyboardInterrupt'' False [])"
proof -
  let ?E = "example_env [''JPM'', ''STOP'', ''CITI''] ''2024-01-10''"
  let ?W = "example_world None :: string list world"
  have h1: "get_next_load_date ?E ?W (START_DATE ?E) = Inr (''2024-01-01'', ''2024-01-10'')"
    by code_simp
  have h2: "strptime ?E ''2024-01-01'' = Inr (2024, 1, 1)" by code_simp
  have h3: "strptime ?E ''2024-01-10'' = Inr (2024, 1, 10)" by code_simp
  have h4: "\<not> datetime_gt (2024, 1, 1) (2024, 1, 10)" by (simp add: datetime_gt_def)
  have h5: "COMPANIES ?E = [''JPM'', ''STOP'', ''CITI'']" by (simp add: example_env_def)
  have h6: "task_calls (events (snd (cfpb_complaints_incremental_flow ?E ''db'' ?W)))
     = [(''2024-01-01'', ''2024-01-10'', ''JPM''), (''2024-01-01'', ''2024-01-10'', ''STOP'')]"
    by code_simp
  have h7: "storage (snd (cfpb_complaints_incremental_flow ?E ''db'' ?W)) = [''JPM'']"
    by code_simp
  have h8: "fst (cfpb_complaints_incremental_flow ?E ''db'' ?W)
     = Inl (PyExc ''KeyboardInterrupt'' False [])" by code_simp
  from h1 h2 h3 h4 h5 h6 h7 h8 show ?thesis by (intro conjI)
qed

text \<open>
  Claim C6, amended. In a run with a non-empty window in which the pipeline, and so the
  task, raises nothing but instances of Exception, the task is applied exactly once to
  each configured company, in the configured order, with the window's date_min and
  date_max and that company: the run's trace holds those calls in that order, the
  destination storage after the run is the one the pipeline leaves when run once per
  company in that order, and the summary's results list holds, in the same order, the
  success dict for what each of these runs returned or the failed dict for what it
  raised, one result per company. These runs are exactly the runs with a non-empty
  window that return a summary.
\<close>

theorem one_call_and_one_result_per_company:
  assumes "get_next_load_date env st (START_DATE env) = Inr (date_min, date_max)"
    and "strptime env date_min = Inr x" and "strptime env date_max = Inr y"
    and "\<not> datetime_gt x y"
    and "run_pipelines env db date_min date_max (COMPANIES env) (storage st) = (outcomes, w)"
  shows "((\<forall>out\<in>set outcomes. \<forall>e. out = Inl e \<longrightarrow> is_Exception e) \<longrightarrow>
           (\<exists>summary st'. cfpb_complaints_incremental_flow env db st = (Inr summary, st') \<and>
              task_calls (events st') =
                task_calls (events st) @ map (\<lambda>c. (date_min, date_max, c)) (COMPANIES env) \<and>
              storage st' = w \<and>
              length outcomes = length (COMPANIES env) \<and>
              map_of summary ''results'' =
                Some (PyList (map2 (recorded_result date_min date_max) (COMPANIES env) outcomes)) \<and>
              map (\<lambda>r. map_of r ''company'') (map2 (recorded_result date_min date_max) (COMPANIES env) outcomes)
                = map Some (COMPANIES env)))
       \<and> (\<forall>summary st'. cfpb_complaints_incremental_flow env db st = (Inr summary, st') \<longrightarrow>
             (\<forall>out\<in>set outcomes. \<forall>e. out = Inl e \<longrightarrow> is_Exception e))"
proof (intro conjI allI impI)
  assume c: "\<forall>out\<in>set outcomes. \<forall>e. out = Inl e \<longrightarrow> is_Exception e"
  let ?rs = "map2 (recorded_result date_min date_max) (COMPANIES env) outcomes"
  obtain res st' where r: "cfpb_complaints_incremental_flow env db st = (res, st')" by force
  from flow_all_succeeded(2)[OF assms(1-4) r assms(5)] c
  have res: "res = Inr (run_summary env date_min date_max ?rs)" and sto: "storage st' = w"
    and comp: "map (\<lambda>r. map_of r ''company'') ?rs = map Some (COMPANIES env)" by blast+
  from flow_calls_and_results[OF assms(1-4) r[unfolded res]]
  have calls: "task_calls (events st') =
      task_calls (events st) @ map (\<lambda>c. (date_min, date_max, c)) (COMPANIES env)" by blast
  have rs: "map_of (run_summary env date_min date_max ?rs) ''results'' = Some (PyList ?rs)"
    by (simp add: run_summary_fields)
  note len = run_pipelines_length[OF assms(5)]
  from r res calls sto len rs comp
  show "\<exists>summary st'. cfpb_complaints_incremental_flow env db st = (Inr summary, st') \<and>
              task_calls (events st') =
                task_calls (events st) @ map (\<lambda>c. (date_min, date_max, c)) (COMPANIES env) \<and>
              storage st' = w \<and>
              length outcomes = length (COMPANIES env) \<and>
              map_of summary ''results'' = Some (PyList ?rs) \<and>
              map (\<lambda>r. map_of r ''company'') ?rs = map Some (COMPANIES env)"
    by (intro exI[of _ "run_summary env date_min date_max ?rs"] exI[of _ st'] conjI) simp_all
next
  fix summary st'
  assume r: "cfpb_complaints_incremental_flow env db st = (Inr summary, st')"
  obtain r1 st1 where l: "company_loop env date_min date_max db (COMPANIES env) [] st = (r1, st1)"
    by force
  from flow_nonempty_window[OF assms(1-4), of db] r l obtain results where "r1 = Inr results"
    by (cases r1) auto
  from company_loop_Inr_run_pipelines[OF l[unfolded this] assms(5)]
  show "\<forall>out\<in>set outcomes. \<forall>e. out = Inl e \<longrightarrow> is_Exception e" .
qed

theorem one_call_and_one_result_per_company_witness:
  "get_next_load_date (example_env [''JPM'', ''BAD'', ''CITI''] ''2024-01-10'') (example_world None)
      (START_DATE (example_env [''JPM'', ''BAD'', ''CITI''] ''2024-01-10''))
     = Inr (''2024-01-01'', ''2024-01-10'') \<and>
   strptime (example_env [''JPM'', ''BAD'', ''CITI''] ''2024-01-10'') ''2024-01-01''
     = Inr (2024, 1, 1) \<and>
   strptime (example_env [''JPM'', ''BAD'', ''CITI''] ''2024-01-10'') ''2024-01-10''
     = Inr (2024, 1, 10) \<and>
   \<not> datetime_gt (2024, 1, 1) (2024, 1, 10) \<and>
   run_pipelines (example_env [''JPM'', ''BAD'', ''CITI''] ''2024-01-10'') ''db''
      ''2024-01-01'' ''2024-01-10'' (COMPANIES (example_env [''JPM'', ''BAD'', ''CITI''] ''2024-01-10''))
      (storage (example_world None))
     = ([Inr ''loaded JPM'', Inl (PyExc ''ExtractionError'' True ''boom''), Inr ''loaded CITI''],
        [''JPM'', ''CITI'']) \<and>
   is_Exception (PyExc ''ExtractionError'' True ''boom'') \<and>
   (\<exists>summary st'.
      cfpb_complaints_incremental_flow (example_env [''JPM'', ''BAD'', ''CITI''] ''2024-01-10'')
        ''db'' (example_world None) = (Inr summary, st') \<and>
      task_calls (events st')
        = [(''2024-01-01'', ''2024-01-10'', ''JPM''), (''2024-01-01'', ''2024-01-10'', ''BAD''),
           (''2024-01-01'', ''2024-01-10'', ''CITI'')] \<and>
      storage st' = [''JPM'', ''CITI''] \<and>
      map_of summary ''results''
        = Some (PyList [success_result ''2024-01-01'' ''2024-01-10'' ''JPM'' ''loaded JPM'',
                        failed_result ''BAD'' ''boom'',
                        success_result ''2024-01-01'' ''2024-01-10'' ''CITI'' ''loaded CITI'']))"
proof -
  let ?E = "example_env [''JPM'', ''BAD'', ''CITI''] ''2024-01-10''"
  let ?W = "example_world None :: string list world"
  let ?os = "[Inr ''loaded JPM'', Inl (PyExc ''ExtractionError'' True ''boom''), Inr ''loaded CITI'']
         :: (py_exc + string) list"
  have h1: "get_next_load_date ?E ?W (START_DATE ?E) = Inr (''2024-01-01'', ''2024-01-10'')"
    by code_simp
  have h2: "strptime ?E ''2024-01-01'' = Inr (2024, 1, 1)" by code_simp
  have h3: "strptime ?E ''2024-01-10'' = Inr (2024, 1, 10)" by code_simp
  have h4: "\<not> datetime_gt (2024, 1, 1) (2024, 1, 10)" by (simp add: datetime_gt_def)
  have h5: "run_pipelines ?E ''db'' ''2024-01-01'' ''2024-01-10'' (COMPANIES ?E) (storage ?W)
      = (?os, [''JPM'', ''CITI''])" by code_simp
  have h6: "is_Exception (PyExc ''ExtractionError'' True ''boom'')" by simp
  have c: "\<forall>out\<in>set ?os. \<forall>e. out = Inl e \<longrightarrow> is_Exception e" by simp
  have rr: "map2 (recorded_result ''2024-01-01'' ''2024-01-10'') (COMPANIES ?E) ?os
      = [success_result ''2024-01-01'' ''2024-01-10'' ''JPM'' ''loaded JPM'',
         failed_result ''BAD'' ''boom'',
         success_result ''2024-01-01'' ''2024-01-10'' ''CITI'' ''loaded CITI'']"
    by (simp add: example_env_def recorded_result_def failed_result_def success_result_def)
  have tc: "task_calls (events ?W) @ map (\<lambda>c. (''2024-01-01'', ''2024-01-10'', c)) (COMPANIES ?E)
      = [(''2024-01-01'', ''2024-01-10'', ''JPM''), (''2024-01-01'', ''2024-01-10'', ''BAD''),
         (''2024-01-01'', ''2024-01-10'', ''CITI'')]"
    by (simp add: example_env_def example_world_def)
  from one_call_and_one_result_per_company[OF h1 h2 h3 h4 h5] c
  obtain summary st' where
    r: "cfpb_complaints_incremental_flow ?E ''db'' ?W = (Inr summary, st')"
    and calls: "task_calls (events st') =
        task_calls (events ?W) @ map (\<lambda>c. (''2024-01-01'', ''2024-01-10'', c)) (COMPANIES ?E)"
    and sto: "storage st' = [''JPM'', ''CITI'']"
    and rs: "map_of summary ''results''
        = Some (PyList (map2 (recorded_result ''2024-01-01'' ''2024-01-10'') (COMPANIES ?E) ?os))"
    by blast
  from calls tc have calls': "task_calls (events st')
        = [(''2024-01-01'', ''2024-01-10'', ''JPM''), (''2024-01-01'', ''2024-01-10'', ''BAD''),
           (''2024-01-01'', ''2024-01-10'', ''CITI'')]" by simp
  from rs rr have rs': "map_of summary ''results''
        = Some (PyList [success_result ''2024-01-01'' ''2024-01-10'' ''JPM'' ''loaded JPM'',
                        failed_result ''BAD'' ''boom'',
                        success_result ''2024-01-01'' ''2024-01-10'' ''CITI'' ''loaded CITI''])"
    by simp
  have ex: "\<exists>summary st'.
      cfpb_complaints_incremental_flow ?E ''db'' ?W = (Inr summary, st') \<and>
      task_calls (events st')
        = [(''2024-01-01'', ''2024-01-10'', ''JPM''), (''2024-01-01'', ''2024-01-10'', ''BAD''),
           (''2024-01-01'', ''2024-01-10'', ''CITI'')] \<and>
      storage st' = [''JPM'', ''CITI''] \<and>
      map_of summary ''results''
        = Some (PyList [success_result ''2024-01-01'' ''2024-01-10'' ''JPM'' ''loaded JPM'',
                        failed_result ''BAD'' ''boom'',
                        success_result ''2024-01-01'' ''2024-01-10'' ''CITI'' ''loaded CITI''])"
    using r calls' sto rs' by (intro exI[of _ summary] exI[of _ st'] conjI)
  from h1 h2 h3 h4 h5 h6 ex show ?thesis by (intro conjI)
qed

text \<open>
  Claim C5, as stated, fails: the dict the handler appends for a failed company has the
  keys company, status and error only. In this run the second result has no date_range.
\<close>

theorem failed_result_has_no_date_range:
  "fst (cfpb_complaints_incremental_flow (example_env [''JPM'', ''BAD''] ''2024-01-10'') ''db''
         (example_world None))
     = Inr [(''date_range'', PyStr ''2024-01-01 to 2024-01-10''),
            (''total_companies'', PyInt 2),
            (''successful'', PyInt 1),
            (''failed'', PyInt 1),
            (''results'', PyList
               [[(''company'', ''JPM''), (''status'', ''success''),
                 (''date_range'', ''2024-01-01 to 2024-01-10''), (''info'', ''loaded JPM'')],
                [(''company'', ''BAD''), (''status'', ''failed''), (''error'', ''boom'')]])] \<and>
   map_of [(''company'', ''BAD''), (''status'', ''failed''), (''error'', ''boom'')] ''date_range''
     = None"
proof -
  have "fst (cfpb_complaints_incremental_flow (example_env [''JPM'', ''BAD''] ''2024-01-10'') ''db''
         (example_world None))
     = Inr [(''date_range'', PyStr ''2024-01-01 to 2024-01-10''),
            (''total_companies'', PyInt 2),
            (''successful'', PyInt 1),
            (''failed'', PyInt 1),
            (''results'', PyList
               [[(''company'', ''JPM''), (''status'', ''success''),
                 (''date_range'', ''2024-01-01 to 2024-01-10''), (''info'', ''loaded JPM'')],
                [(''company'', ''BAD''), (''status'', ''failed''), (''error'', ''boom'')]])]"
    by code_simp
  moreover have
    "map_of [(''company'', ''BAD''), (''status'', ''failed''), (''error'', ''boom'')] ''date_range''
       = None" by simp
  ultimately show ?thesis by (rule conjI)
qed


text \<open>
  Claim C5, amended. Every result in a summary that is not the skipped one has the fields
  company and status. With status success it has exactly the keys company, status,
  date_range and info; with status failed it has exactly the keys company, status and
  error, and no date_range.
\<close>

theorem result_fields_by_status:
  assumes "cfpb_complaints_incremental_flow env db st = (Inr summary, st')"
    and "map_of summary ''status'' \<noteq> Some (PyStr ''skipped'')"
  shows "\<exists>results. map_of summary ''results'' = Some (PyList results) \<and>
           (\<forall>r\<in>set results.
              (has_status ''success'' r \<and>
                 dict_keys r = [''company'', ''status'', ''date_range'', ''info''])
            \<or> (has_status ''failed'' r \<and>
                 dict_keys r = [''company'', ''status'', ''error''] \<and>
                 map_of r ''date_range'' = None))"
proof -
  from flow_summary_results[OF assms] obtain date_min date_max results where
    s: "summary = run_summary env date_min date_max results"
    and shape: "list_all2 (\<lambda>c r. (\<exists>info. r = success_result date_min date_max c info) \<or>
                            (\<exists>err. r = failed_result c err)) (COMPANIES env) results" by blast
  have "\<forall>r\<in>set results.
              (has_status ''success'' r \<and>
                 dict_keys r = [''company'', ''status'', ''date_range'', ''info''])
            \<or> (has_status ''failed'' r \<and>
                 dict_keys r = [''company'', ''status'', ''error''] \<and>
                 map_of r ''date_range'' = None)"
    by (rule list_all2_right_all[OF shape]) (rule result_keys)
  with s show ?thesis by (simp add: run_summary_fields)
qed

theorem result_fields_by_status_witness:
  "cfpb_complaints_incremental_flow (example_env [''BAD'', ''JPM''] ''2024-02-29'') ''db''
      (example_world (Some ''2024-02-27''))
     = (Inr (run_summary (example_env [''BAD'', ''JPM''] ''2024-02-29'')
               ''2024-02-28'' ''2024-02-29''
               [failed_result ''BAD'' ''boom'',
                success_result ''2024-02-28'' ''2024-02-29'' ''JPM'' ''loaded JPM'']),
        \<lparr>watermark = Some ''2024-02-27'', storage = [''JPM''],
         events = [Task_call ''2024-02-28'' ''2024-02-29'' ''BAD'' ''db'',
                   Task_call ''2024-02-28'' ''2024-02-29'' ''JPM'' ''db'']\<rparr>) \<and>
   map_of (run_summary (example_env [''BAD'', ''JPM''] ''2024-02-29'')
             ''2024-02-28'' ''2024-02-29''
             [failed_result ''BAD'' ''boom'',
              success_result ''2024-02-28'' ''2024-02-29'' ''JPM'' ''loaded JPM'']) ''status''
     \<noteq> Some (PyStr ''skipped'') \<and>
   dict_keys (failed_result ''BAD'' ''boom'') = [''company'', ''status'', ''error''] \<and>
   dict_keys (success_result ''2024-02-28'' ''2024-02-29'' ''JPM'' ''loaded JPM'')
     = [''company'', ''status'', ''date_range'', ''info'']"
proof -
  let ?E = "example_env [''BAD'', ''JPM''] ''2024-02-29''"
  let ?F = "failed_result ''BAD'' ''boom''"
  let ?G = "success_result ''2024-02-28'' ''2024-02-29'' ''JPM'' ''loaded JPM''"
  let ?S = "run_summary ?E ''2024-02-28'' ''2024-02-29'' [?F, ?G]"
  let ?W' = "\<lparr>watermark = Some ''2024-02-27'', storage = [''JPM''],
         events = [Task_call ''2024-02-28'' ''2024-02-29'' ''BAD'' ''db'',
                   Task_call ''2024-02-28'' ''2024-02-29'' ''JPM'' ''db'']\<rparr>"
  have h1: "cfpb_complaints_incremental_flow ?E ''db'' (example_world (Some ''2024-02-27''))
      = (Inr ?S, ?W')" by code_simp
  have h2: "map_of ?S ''status'' \<noteq> Some (PyStr ''skipped'')" by (simp add: run_summary_fields)
  from result_fields_by_status[OF h1 h2] obtain results where
    r: "map_of ?S ''results'' = Some (PyList results)"
    and k: "\<forall>r\<in>set results.
              (has_status ''success'' r \<and>
                 dict_keys r = [''company'', ''status'', ''date_range'', ''info''])
            \<or> (has_status ''failed'' r \<and>
                 dict_keys r = [''company'', ''status'', ''error''] \<and>
                 map_of r ''date_range'' = None)" by blast
  from r have results: "results = [?F, ?G]" by (simp add: run_summary_fields)
  from k results have "dict_keys ?F = [''company'', ''status'', ''error'']"
    using failed_result_status(2)[of "''BAD''" "''boom''"] by auto
  moreover from k results have "dict_keys ?G = [''company'', ''status'', ''date_range'', ''info'']"
    using success_result_status(2)[of "''2024-02-28''" "''2024-02-29''" "''JPM''" "''loaded JPM''"]
    by auto
  ultimately show ?thesis using h1 h2 by blast
qed


subsection \<open>Watermark advancement\<close>

text \<open>
  Claim C1. In a run with a non-empty window, the watermark advances to date_max, that
  is the run writes date_max to the watermark, if and only if the pipeline, and so the
  task, succeeded for every configured company. A run in which it did returns its
  summary, with one success result per company, and has written date_max. Every company succeeded if and only
  if the summary's successful count equals its total_companies. In every other run, and
  so in every run in which at least one company failed, the watermark after the run is
  the watermark before it and nothing was written.
\<close>

theorem watermark_advances_iff_all_succeeded:
  assumes "get_next_load_date env st (START_DATE env) = Inr (date_min, date_max)"
    and "strptime env date_min = Inr x" and "strptime env date_max = Inr y"
    and "\<not> datetime_gt x y"
    and "cfpb_complaints_incremental_flow env db st = (res, st')"
    and "run_pipelines env db date_min date_max (COMPANIES env) (storage st) = (outcomes, w)"
  shows "((watermark_writes (events st') = watermark_writes (events st) @ [date_max] \<and>
           watermark st' = Some date_max)
          \<longleftrightarrow> (\<forall>out\<in>set outcomes. \<not> isl out))
       \<and> ((\<forall>out\<in>set outcomes. \<not> isl out)
          \<longrightarrow> res = Inr (run_summary env date_min date_max
                           (map2 (recorded_result date_min date_max) (COMPANIES env) outcomes)) \<and>
              (\<forall>r\<in>set (map2 (recorded_result date_min date_max) (COMPANIES env) outcomes). has_status ''success'' r) \<and>
              watermark_writes (events st') = watermark_writes (events st) @ [date_max] \<and>
              watermark st' = Some date_max)
       \<and> ((\<forall>out\<in>set outcomes. \<not> isl out)
          \<longleftrightarrow> (\<exists>results. res = Inr (run_summary env date_min date_max results) \<and>
                 map (\<lambda>r. map_of r ''company'') results = map Some (COMPANIES env) \<and>
                 (\<forall>r\<in>set results. has_status ''success'' r)))
       \<and> ((\<forall>out\<in>set outcomes. \<not> isl out)
          \<longleftrightarrow> (\<exists>summary n. res = Inr summary \<and>
                 map_of summary ''successful'' = Some (PyInt n) \<and>
                 map_of summary ''total_companies'' = Some (PyInt n)))
       \<and> ((\<forall>out\<in>set outcomes. \<not> isl out)
          \<or> (watermark st' = watermark st \<and>
              watermark_writes (events st') = watermark_writes (events st)))
       \<and> ((\<exists>results. res = Inr (run_summary env date_min date_max results) \<and>
                 (\<exists>r\<in>set results. has_status ''failed'' r))
          \<longrightarrow> watermark st' = watermark st)"
proof -
  let ?O = "\<forall>out\<in>set outcomes. \<not> isl out"
  let ?rs = "map2 (recorded_result date_min date_max) (COMPANIES env) outcomes"
  let ?A = "watermark_writes (events st') = watermark_writes (events st) @ [date_max] \<and>
           watermark st' = Some date_max"
  let ?B = "\<exists>results. res = Inr (run_summary env date_min date_max results) \<and>
                 map (\<lambda>r. map_of r ''company'') results = map Some (COMPANIES env) \<and>
                 (\<forall>r\<in>set results. has_status ''success'' r)"
  let ?B' = "\<exists>results. res = Inr (run_summary env date_min date_max results) \<and>
                 (\<forall>r\<in>set results. has_status ''success'' r)"
  let ?C = "\<exists>summary n. res = Inr summary \<and>
                 map_of summary ''successful'' = Some (PyInt n) \<and>
                 map_of summary ''total_companies'' = Some (PyInt n)"
  let ?U = "watermark st' = watermark st \<and>
              watermark_writes (events st') = watermark_writes (events st)"
  let ?F = "\<exists>results. res = Inr (run_summary env date_min date_max results) \<and>
                 (\<exists>r\<in>set results. has_status ''failed'' r)"
  from watermark_advance_via_summary[OF assms(1-5)]
  have AB: "?A \<longleftrightarrow> ?B" and BC: "?B \<longleftrightarrow> ?C" and BU: "?B' \<or> ?U"
    and FU: "?F \<longrightarrow> watermark st' = watermark st" by blast+
  note fa = flow_all_succeeded[OF assms]
  have B'O: "?B' \<longrightarrow> ?O" by (rule fa(1))
  have OB: "?O \<longrightarrow> ?B \<and> res = Inr (run_summary env date_min date_max ?rs) \<and>
              (\<forall>r\<in>set ?rs. has_status ''success'' r)"
  proof
    assume O: ?O
    then have c: "\<forall>out\<in>set outcomes. \<forall>e. out = Inl e \<longrightarrow> is_Exception e" by auto
    with fa(2) have res: "res = Inr (run_summary env date_min date_max ?rs)"
      and comp: "map (\<lambda>r. map_of r ''company'') ?rs = map Some (COMPANIES env)" by blast+
    from O run_pipelines_all_success[OF assms(6)]
    have all: "\<forall>r\<in>set ?rs. has_status ''success'' r" by simp
    from res comp all show "?B \<and> res = Inr (run_summary env date_min date_max ?rs) \<and>
              (\<forall>r\<in>set ?rs. has_status ''success'' r)" by blast
  qed
  have BO: "?B \<longleftrightarrow> ?O" using B'O OB by blast
  have AO: "?A \<longleftrightarrow> ?O" using AB BO by blast
  have OC: "?O \<longleftrightarrow> ?C" using BC BO by blast
  have OU: "?O \<or> ?U" using BU B'O by blast
  have O2: "?O \<longrightarrow> res = Inr (run_summary env date_min date_max ?rs) \<and>
              (\<forall>r\<in>set ?rs. has_status ''success'' r) \<and> ?A" using OB AO by blast
  have OB': "?O \<longleftrightarrow> ?B" using BO by blast
  from AO O2 OB' OC OU FU show ?thesis by (intro conjI)
qed

theorem watermark_advances_iff_all_succeeded_witness:
  "get_next_load_date (example_env [''JPM'', ''CITI''] ''2024-01-10'') (example_world None)
      (START_DATE (example_env [''JPM'', ''CITI''] ''2024-01-10''))
     = Inr (''2024-01-01'', ''2024-01-10'') \<and>
   strptime (example_env [''JPM'', ''CITI''] ''2024-01-10'') ''2024-01-01'' = Inr (2024, 1, 1) \<and>
   strptime (example_env [''JPM'', ''CITI''] ''2024-01-10'') ''2024-01-10'' = Inr (2024, 1, 10) \<and>
   \<not> datetime_gt (2024, 1, 1) (2024, 1, 10) \<and>
   run_pipelines (example_env [''JPM'', ''CITI''] ''2024-01-10'') ''db'' ''2024-01-01'' ''2024-01-10''
      (COMPANIES (example_env [''JPM'', ''CITI''] ''2024-01-10'')) (storage (example_world None))
     = ([Inr ''loaded JPM'', Inr ''loaded CITI''], [''JPM'', ''CITI'']) \<and>
   fst (cfpb_complaints_incremental_flow (example_env [''JPM'', ''CITI''] ''2024-01-10'') ''db''
          (example_world None))
     = Inr (run_summary (example_env [''JPM'', ''CITI''] ''2024-01-10'')
              ''2024-01-01'' ''2024-01-10''
              [success_result ''2024-01-01'' ''2024-01-10'' ''JPM'' ''loaded JPM'',
               success_result ''2024-01-01'' ''2024-01-10'' ''CITI'' ''loaded CITI'']) \<and>
   watermark (snd (cfpb_complaints_incremental_flow (example_env [''JPM'', ''CITI''] ''2024-01-10'')
                     ''db'' (example_world None)))
     = Some ''2024-01-10'' \<and>
   watermark_writes (events (snd (cfpb_complaints_incremental_flow
        (example_env [''JPM'', ''CITI''] ''2024-01-10'') ''db'' (example_world None))))
     = [''2024-01-10''] \<and>
   get_next_load_date (example_env [''JPM'', ''BAD''] ''2024-01-08'')
      (example_world (Some ''2024-01-05'')) (START_DATE (example_env [''JPM'', ''BAD''] ''2024-01-08''))
     = Inr (''2024-01-06'', ''2024-01-08'') \<and>
   strptime (example_env [''JPM'', ''BAD''] ''2024-01-08'') ''2024-01-06'' = Inr (2024, 1, 6) \<and>
   strptime (example_env [''JPM'', ''BAD''] ''2024-01-08'') ''2024-01-08'' = Inr (2024, 1, 8) \<and>
   \<not> datetime_gt (2024, 1, 6) (2024, 1, 8) \<and>
   run_pipelines (example_env [''JPM'', ''BAD''] ''2024-01-08'') ''db'' ''2024-01-06'' ''2024-01-08''
      (COMPANIES (example_env [''JPM'', ''BAD''] ''2024-01-08''))
      (storage (example_world (Some ''2024-01-05'')))
     = ([Inr ''loaded JPM'', Inl (PyExc ''ExtractionError'' True ''boom'')], [''JPM'']) \<and>
   watermark (snd (cfpb_complaints_incremental_flow (example_env [''JPM'', ''BAD''] ''2024-01-08'')
                     ''db'' (example_world (Some ''2024-01-05''))))
     = Some ''2024-01-05'' \<and>
   watermark_writes (events (snd (cfpb_complaints_incremental_flow
        (example_env [''JPM'', ''BAD''] ''2024-01-08'') ''db'' (example_world (Some ''2024-01-05'')))))
     = []"
proof -
  let ?E = "example_env [''JPM'', ''CITI''] ''2024-01-10''"
  let ?W = "example_world None :: string list world"
  let ?os = "[Inr ''loaded JPM'', Inr ''loaded CITI''] :: (py_exc + string) list"
  have h1: "get_next_load_date ?E ?W (START_DATE ?E) = Inr (''2024-01-01'', ''2024-01-10'')"
    by code_simp
  have h2: "strptime ?E ''2024-01-01'' = Inr (2024, 1, 1)" by code_simp
  have h3: "strptime ?E ''2024-01-10'' = Inr (2024, 1, 10)" by code_simp
  have h4: "\<not> datetime_gt (2024, 1, 1) (2024, 1, 10)" by (simp add: datetime_gt_def)
  have h5: "cfpb_complaints_incremental_flow ?E ''db'' ?W
      = (fst (cfpb_complaints_incremental_flow ?E ''db'' ?W),
         snd (cfpb_complaints_incremental_flow ?E ''db'' ?W))" by simp
  have h6: "run_pipelines ?E ''db'' ''2024-01-01'' ''2024-01-10'' (COMPANIES ?E) (storage ?W)
      = (?os, [''JPM'', ''CITI''])" by code_simp
  have a: "\<forall>out\<in>set ?os. \<not> isl out" by simp
  have ws: "watermark_writes (events ?W) = []" by (simp add: example_world_def)
  have rr: "map2 (recorded_result ''2024-01-01'' ''2024-01-10'') (COMPANIES ?E) ?os
      = [success_result ''2024-01-01'' ''2024-01-10'' ''JPM'' ''loaded JPM'',
         success_result ''2024-01-01'' ''2024-01-10'' ''CITI'' ''loaded CITI'']"
    by (simp add: example_env_def recorded_result_def success_result_def)
  from watermark_advances_iff_all_succeeded[OF h1 h2 h3 h4 h5 h6] a
  have s1: "fst (cfpb_complaints_incremental_flow ?E ''db'' ?W)
      = Inr (run_summary ?E ''2024-01-01'' ''2024-01-10'' (map2 (recorded_result ''2024-01-01'' ''2024-01-10'') (COMPANIES ?E) ?os))"
    and s2: "watermark_writes (events (snd (cfpb_complaints_incremental_flow ?E ''db'' ?W)))
      = watermark_writes (events ?W) @ [''2024-01-10'']"
    and s3: "watermark (snd (cfpb_complaints_incremental_flow ?E ''db'' ?W)) = Some ''2024-01-10''"
    by blast+
  from s1 rr have c1: "fst (cfpb_complaints_incremental_flow ?E ''db'' ?W)
     = Inr (run_summary ?E ''2024-01-01'' ''2024-01-10''
              [success_result ''2024-01-01'' ''2024-01-10'' ''JPM'' ''loaded JPM'',
               success_result ''2024-01-01'' ''2024-01-10'' ''CITI'' ''loaded CITI''])" by simp
  from s2 ws have c2: "watermark_writes (events (snd (cfpb_complaints_incremental_flow ?E ''db'' ?W)))
      = [''2024-01-10'']" by simp
  let ?E2 = "example_env [''JPM'', ''BAD''] ''2024-01-08''"
  let ?W2 = "example_world (Some ''2024-01-05'') :: string list world"
  let ?os2 = "[Inr ''loaded JPM'', Inl (PyExc ''ExtractionError'' True ''boom'')]
         :: (py_exc + string) list"
  have k1: "get_next_load_date ?E2 ?W2 (START_DATE ?E2) = Inr (''2024-01-06'', ''2024-01-08'')"
    by code_simp
  have k2: "strptime ?E2 ''2024-01-06'' = Inr (2024, 1, 6)" by code_simp
  have k3: "strptime ?E2 ''2024-01-08'' = Inr (2024, 1, 8)" by code_simp
  have k4: "\<not> datetime_gt (2024, 1, 6) (2024, 1, 8)" by (simp add: datetime_gt_def)
  have k5: "cfpb_complaints_incremental_flow ?E2 ''db'' ?W2
      = (fst (cfpb_complaints_incremental_flow ?E2 ''db'' ?W2),
         snd (cfpb_complaints_incremental_flow ?E2 ''db'' ?W2))" by simp
  have k6: "run_pipelines ?E2 ''db'' ''2024-01-06'' ''2024-01-08'' (COMPANIES ?E2) (storage ?W2)
      = (?os2, [''JPM''])" by code_simp
  have b: "\<not> (\<forall>out\<in>set ?os2. \<not> isl out)" by simp
  have ws2: "watermark_writes (events ?W2) = []" "watermark ?W2 = Some ''2024-01-05''"
    by (simp_all add: example_world_def)
  from watermark_advances_iff_all_succeeded[OF k1 k2 k3 k4 k5 k6] b
  have "watermark (snd (cfpb_complaints_incremental_flow ?E2 ''db'' ?W2)) = watermark ?W2"
    and "watermark_writes (events (snd (cfpb_complaints_incremental_flow ?E2 ''db'' ?W2)))
      = watermark_writes (events ?W2)" by blast+
  with ws2 have d1: "watermark (snd (cfpb_complaints_incremental_flow ?E2 ''db'' ?W2))
      = Some ''2024-01-05''"
    and d2: "watermark_writes (events (snd (cfpb_complaints_incremental_flow ?E2 ''db'' ?W2))) = []"
    by simp_all
  from h1 h2 h3 h4 h6 c1 s3 c2 k1 k2 k3 k4 k6 d1 d2 show ?thesis by (intro conjI)
qed

text \<open>
  Claim C7. A run writes the watermark at most once. Every run ends in one of five ways:
  it raised before the loop, it was skipped, it finished the loop with fewer success
  results than companies, it was cut short inside the loop, or it wrote the watermark.
  In the first four the trace gains no watermark write and the watermark is unchanged.
  In the last the run's events are the task calls for all configured companies followed
  by the single write, the value written is date_max, the summary is not the skipped one
  and every result has status success. The flow changes the destination storage only
  through the pipeline: when the pipeline leaves the storage as it is, so does the run.
\<close>

theorem at_most_one_watermark_write:
  assumes "cfpb_complaints_incremental_flow env db st = (res, st')"
  shows "((events st' = events st \<and> watermark st' = watermark st \<and>
             (\<exists>e. res = Inl e))
        \<or> (events st' = events st \<and> watermark st' = watermark st \<and>
             (\<exists>date_max. res = Inr (skipped_summary date_max)))
        \<or> (watermark_writes (events st') = watermark_writes (events st) \<and>
             watermark st' = watermark st \<and>
             (\<exists>date_min date_max results.
                (res = Inr (run_summary env date_min date_max results) \<and>
                   length (filter (has_status ''success'') results) \<noteq> length (COMPANIES env))) )
        \<or> (watermark_writes (events st') = watermark_writes (events st) \<and>
             watermark st' = watermark st \<and> (\<exists>e. res = Inl e \<and> \<not> is_Exception e))
        \<or> (\<exists>date_min date_max results.
             get_next_load_date env st (START_DATE env) = Inr (date_min, date_max) \<and>
             events st' = events st @ map (\<lambda>c. Task_call date_min date_max c db) (COMPANIES env)
                            @ [Watermark_write date_max] \<and>
             watermark_writes (events st') = watermark_writes (events st) @ [date_max] \<and>
             watermark st' = Some date_max \<and>
             res = Inr (run_summary env date_min date_max results) \<and>
             length results = length (COMPANIES env) \<and>
             (\<forall>r\<in>set results. has_status ''success'' r)))
       \<and> ((\<forall>database_path date_min date_max company w.
              snd (run_pipeline env database_path date_min date_max company w) = w)
            \<longrightarrow> storage st' = storage st)"
  using flow_cases[OF assms]
proof (elim disjE conjE exE)
  fix e
  assume "st' = st" "res = Inl e"
  then show ?thesis by simp
next
  fix date_min date_max x y
  assume "st' = st" "res = Inr (skipped_summary date_max)"
  then show ?thesis by blast
next
  fix date_min date_max x y r st1
  assume g: "get_next_load_date env st (START_DATE env) = Inr (date_min, date_max)"
    and l: "company_loop env date_min date_max db (COMPANIES env) [] st = (r, st1)"
    and c: "case r of
                 Inl e \<Rightarrow> res = Inl e \<and> st' = st1
               | Inr results \<Rightarrow>
                   res = Inr (run_summary env date_min date_max results) \<and>
                   st' = (if length (filter (has_status ''success'') results) = length (COMPANIES env)
                          then update_last_loaded_date date_max st1 else st1)"
  note wm = company_loop_watermark[OF l] and wr = company_loop_writes[OF l]
  have sto: "(\<forall>database_path date_min date_max company w.
              snd (run_pipeline env database_path date_min date_max company w) = w)
            \<longrightarrow> storage st1 = storage st"
  proof
    assume "\<forall>database_path date_min date_max company w.
              snd (run_pipeline env database_path date_min date_max company w) = w"
    then have "\<And>db a b c w. snd (run_pipeline env db a b c w) = w" by blast
    from company_loop_storage[OF this l] show "storage st1 = storage st" .
  qed
  show ?thesis
  proof (cases r)
    case (Inl e)
    with c have res: "res = Inl e" and st': "st' = st1" by simp_all
    from company_loop_Inl[OF l[unfolded Inl]] have "\<not> is_Exception e" .
    with res st' wm wr have D: "watermark_writes (events st') = watermark_writes (events st) \<and>
             watermark st' = watermark st \<and> (\<exists>e. res = Inl e \<and> \<not> is_Exception e)"
      by blast
    have ST: "(\<forall>database_path date_min date_max company w.
              snd (run_pipeline env database_path date_min date_max company w) = w)
            \<longrightarrow> storage st' = storage st"
      using st' sto by simp
    from D ST show ?thesis by blast
  next
    case (Inr results)
    with c have res: "res = Inr (run_summary env date_min date_max results)"
      and st': "st' = (if length (filter (has_status ''success'') results) = length (COMPANIES env)
                          then update_last_loaded_date date_max st1 else st1)" by simp_all
    from company_loop_Inr[OF l[unfolded Inr]] have
      ev: "events st1 = events st @ map (\<lambda>c. Task_call date_min date_max c db) (COMPANIES env)"
      and shape: "list_all2 (\<lambda>c r. (\<exists>info. r = success_result date_min date_max c info) \<or>
                            (\<exists>err. r = failed_result c err)) (COMPANIES env) results" by auto
    from shape have len: "length results = length (COMPANIES env)" by (simp add: list_all2_lengthD)
    show ?thesis
    proof (cases "length (filter (has_status ''success'') results) = length (COMPANIES env)")
      case True
      with st' have u: "st' = update_last_loaded_date date_max st1" by simp
      from True len have all: "\<forall>r\<in>set results. has_status ''success'' r"
        using length_filter_all[of "has_status ''success''" results] by simp
      have e': "events st' = events st @ map (\<lambda>c. Task_call date_min date_max c db) (COMPANIES env)
                            @ [Watermark_write date_max]"
        unfolding u using ev by (simp add: update_last_loaded_date_effect)
      have w': "watermark_writes (events st') = watermark_writes (events st) @ [date_max]"
        unfolding u using wr by (simp add: update_last_loaded_date_effect(4))
      have m': "watermark st' = Some date_max" unfolding u by (simp add: update_last_loaded_date_effect)
      have s': "storage st' = storage st1" unfolding u by (simp add: update_last_loaded_date_effect)
      have E: "\<exists>date_min date_max results.
             get_next_load_date env st (START_DATE env) = Inr (date_min, date_max) \<and>
             events st' = events st @ map (\<lambda>c. Task_call date_min date_max c db) (COMPANIES env)
                            @ [Watermark_write date_max] \<and>
             watermark_writes (events st') = watermark_writes (events st) @ [date_max] \<and>
             watermark st' = Some date_max \<and>
             res = Inr (run_summary env date_min date_max results) \<and>
             length results = length (COMPANIES env) \<and>
             (\<forall>r\<in>set results. has_status ''success'' r)"
        using g e' w' m' res len all by blast
      have ST: "(\<forall>database_path date_min date_max company w.
              snd (run_pipeline env database_path date_min date_max company w) = w)
            \<longrightarrow> storage st' = storage st"
        using s' sto by simp
      show ?thesis by (intro conjI disjI2) (rule E, rule ST)
    next
      case False
      with st' have eq: "st' = st1" by simp
      have C: "watermark_writes (events st') = watermark_writes (events st) \<and>
             watermark st' = watermark st \<and>
             (\<exists>date_min date_max results.
                (res = Inr (run_summary env date_min date_max results) \<and>
                   length (filter (has_status ''success'') results) \<noteq> length (COMPANIES env)))"
        using eq res False wm wr by blast
      have ST: "(\<forall>database_path date_min date_max company w.
              snd (run_pipeline env database_path date_min date_max company w) = w)
            \<longrightarrow> storage st' = storage st"
        using eq sto by simp
      from C ST show ?thesis by blast
    qed
  qed
qed

theorem at_most_one_watermark_write_witness:
  "cfpb_complaints_incremental_flow
      ((example_env [''JPM'', ''CITI''] ''2024-01-10'')\<lparr>run_pipeline := dry_run_pipeline\<rparr>) ''db''
      (example_world None)
     = (Inr (run_summary ((example_env [''JPM'', ''CITI''] ''2024-01-10'')\<lparr>run_pipeline := dry_run_pipeline\<rparr>)
               ''2024-01-01'' ''2024-01-10''
               [success_result ''2024-01-01'' ''2024-01-10'' ''JPM'' ''dry run'',
                success_result ''2024-01-01'' ''2024-01-10'' ''CITI'' ''dry run'']),
        \<lparr>watermark = Some ''2024-01-10'', storage = [],
         events = [Task_call ''2024-01-01'' ''2024-01-10'' ''JPM'' ''db'',
                   Task_call ''2024-01-01'' ''2024-01-10'' ''CITI'' ''db'',
                   Watermark_write ''2024-01-10'']\<rparr>) \<and>
   (\<forall>database_path date_min date_max company w.
      snd (run_pipeline ((example_env [''JPM'', ''CITI''] ''2024-01-10'')\<lparr>run_pipeline := dry_run_pipeline\<rparr>)
             database_path date_min date_max company w) = w) \<and>
   storage \<lparr>watermark = Some ''2024-01-10'', storage = [] :: string list,
         events = [Task_call ''2024-01-01'' ''2024-01-10'' ''JPM'' ''db'',
                   Task_call ''2024-01-01'' ''2024-01-10'' ''CITI'' ''db'',
                   Watermark_write ''2024-01-10'']\<rparr>
     = storage (example_world None)"
proof -
  let ?E = "(example_env [''JPM'', ''CITI''] ''2024-01-10'')\<lparr>run_pipeline := dry_run_pipeline\<rparr>"
  let ?S = "run_summary ?E ''2024-01-01'' ''2024-01-10''
               [success_result ''2024-01-01'' ''2024-01-10'' ''JPM'' ''dry run'',
                success_result ''2024-01-01'' ''2024-01-10'' ''CITI'' ''dry run'']"
  let ?W' = "\<lparr>watermark = Some ''2024-01-10'', storage = [] :: string list,
         events = [Task_call ''2024-01-01'' ''2024-01-10'' ''JPM'' ''db'',
                   Task_call ''2024-01-01'' ''2024-01-10'' ''CITI'' ''db'',
                   Watermark_write ''2024-01-10'']\<rparr>"
  have h1: "cfpb_complaints_incremental_flow ?E ''db'' (example_world None) = (Inr ?S, ?W')"
    by code_simp
  have h2: "\<forall>database_path date_min date_max company w.
      snd (run_pipeline ?E database_path date_min date_max company w) = w"
    by (simp add: example_env_def dry_run_pipeline_def)
  from at_most_one_watermark_write[OF h1] h2
  have "storage ?W' = storage (example_world None)" by blast
  with h1 h2 show ?thesis by blast
qed

subsection \<open>Failure of a company\<close>

text \<open>
  Claim C3. When the task raises an error for a company, an exception that is an instance
  of Exception, the loop appends the failed dict with that company and the error's
  message and goes on with all the remaining companies; when the loop then finishes,
  the results hold that failed dict at the company's position and one result for every
  remaining company. No run of the flow whose window was computed raises an instance of
  Exception to its caller.
\<close>

theorem failure_is_recorded_and_loop_continues:
  assumes "extract_and_load_complaints_task env date_min date_max company database_path (storage st)
             = (Inl e, w')"
    and "is_Exception e"
  shows "company_loop env date_min date_max database_path (company # rest) results st =
           company_loop env date_min date_max database_path rest
             (results @ [[(''company'', company), (''status'', ''failed''), (''error'', str_exc e)]])
             (st\<lparr>events := events st @ [Task_call date_min date_max company database_path],
                 storage := w'\<rparr>)
       \<and> (\<forall>rs st1. company_loop env date_min date_max database_path (company # rest) results st
                      = (Inr rs, st1)
             \<longrightarrow> length rs = length results + 1 + length rest \<and>
                 take (length results) rs = results \<and>
                 rs ! length results
                   = [(''company'', company), (''status'', ''failed''), (''error'', str_exc e)])
       \<and> (\<forall>db st0 a b x y ex st2.
             get_next_load_date env st0 (START_DATE env) = Inr (a, b) \<and>
             strptime env a = Inr x \<and> strptime env b = Inr y \<and>
             cfpb_complaints_incremental_flow env db st0 = (Inl ex, st2)
             \<longrightarrow> \<not> is_Exception ex)"
proof -
  let ?f = "[(''company'', company), (''status'', ''failed''), (''error'', str_exc e)]"
  let ?st = "st\<lparr>events := events st @ [Task_call date_min date_max company database_path],
                 storage := w'\<rparr>"
  have step: "company_loop env date_min date_max database_path (company # rest) results st =
           company_loop env date_min date_max database_path rest (results @ [?f]) ?st"
    using try_company_caught[OF assms] by simp
  have fin: "\<forall>rs st1. company_loop env date_min date_max database_path (company # rest) results st
                      = (Inr rs, st1)
             \<longrightarrow> length rs = length results + 1 + length rest \<and>
                 take (length results) rs = results \<and>
                 rs ! length results = ?f"
  proof (intro allI impI)
    fix rs st1
    assume "company_loop env date_min date_max database_path (company # rest) results st = (Inr rs, st1)"
    with step have "company_loop env date_min date_max database_path rest (results @ [?f]) ?st
        = (Inr rs, st1)" by simp
    from company_loop_Inr[OF this] obtain new where
      rs: "rs = (results @ [?f]) @ new" and
      new: "list_all2 (\<lambda>c r. (\<exists>info. r = success_result date_min date_max c info) \<or>
                            (\<exists>err. r = failed_result c err)) rest new" by blast
    from new have "length new = length rest" by (simp add: list_all2_lengthD)
    with rs show "length rs = length results + 1 + length rest \<and>
                 take (length results) rs = results \<and>
                 rs ! length results = ?f" by (simp add: nth_append)
  qed
  have flow: "\<forall>db st0 a b x y ex st2.
             get_next_load_date env st0 (START_DATE env) = Inr (a, b) \<and>
             strptime env a = Inr x \<and> strptime env b = Inr y \<and>
             cfpb_complaints_incremental_flow env db st0 = (Inl ex, st2)
             \<longrightarrow> \<not> is_Exception ex"
    using flow_raises_only_uncaught by blast
  from step fin flow show ?thesis by (intro conjI)
qed

theorem failure_is_recorded_and_loop_continues_witness:
  "extract_and_load_complaints_task (example_env [''BAD'', ''JPM''] ''2024-01-10'')
      ''2024-01-01'' ''2024-01-10'' ''BAD'' ''db'' (storage (example_world None))
     = (Inl (PyExc ''ExtractionError'' True ''boom''), []) \<and>
   is_Exception (PyExc ''ExtractionError'' True ''boom'') \<and>
   company_loop (example_env [''BAD'', ''JPM''] ''2024-01-10'') ''2024-01-01'' ''2024-01-10'' ''db''
      [''BAD'', ''JPM''] [] (example_world None)
     = (Inr [[(''company'', ''BAD''), (''status'', ''failed''), (''error'', ''boom'')],
             [(''company'', ''JPM''), (''status'', ''success''),
              (''date_range'', ''2024-01-01 to 2024-01-10''), (''info'', ''loaded JPM'')]],
        \<lparr>watermark = None, storage = [''JPM''],
         events = [Task_call ''2024-01-01'' ''2024-01-10'' ''BAD'' ''db'',
                   Task_call ''2024-01-01'' ''2024-01-10'' ''JPM'' ''db'']\<rparr>)"
proof -
  let ?E = "example_env [''BAD'', ''JPM''] ''2024-01-10''"
  let ?e = "PyExc ''ExtractionError'' True ''boom''"
  have h1: "extract_and_load_complaints_task ?E ''2024-01-01'' ''2024-01-10'' ''BAD'' ''db''
      (storage (example_world None)) = (Inl ?e, [])" by code_simp
  have h2: "is_Exception ?e" by simp
  from failure_is_recorded_and_loop_continues[OF h1 h2, of "[''JPM'']" "[]"]
  have "company_loop ?E ''2024-01-01'' ''2024-01-10'' ''db'' [''BAD'', ''JPM''] [] (example_world None)
      = company_loop ?E ''2024-01-01'' ''2024-01-10'' ''db'' [''JPM'']
          ([] @ [[(''company'', ''BAD''), (''status'', ''failed''), (''error'', str_exc ?e)]])
          ((example_world None)\<lparr>events := events (example_world None)
               @ [Task_call ''2024-01-01'' ''2024-01-10'' ''BAD'' ''db''], storage := []\<rparr>)"
    by blast
  also have "\<dots> = (Inr [[(''company'', ''BAD''), (''status'', ''failed''), (''error'', ''boom'')],
             [(''company'', ''JPM''), (''status'', ''success''),
              (''date_range'', ''2024-01-01 to 2024-01-10''), (''info'', ''loaded JPM'')]],
        \<lparr>watermark = None, storage = [''JPM''],
         events = [Task_call ''2024-01-01'' ''2024-01-10'' ''BAD'' ''db'',
                   Task_call ''2024-01-01'' ''2024-01-10'' ''JPM'' ''db'']\<rparr>)"
    by code_simp
  finally show ?thesis using h1 h2 by blast
qed

text \<open>
  Claim C9, as stated, fails: the handler is \<^verbatim>\<open>except Exception\<close>, and an exception
  that is not an instance of Exception passes it. Here the task is interrupted from the
  keyboard while loading the second of three companies: the flow raises the
  KeyboardInterrupt, no result is recorded for that company and the third company is
  never attempted.
\<close>

theorem keyboard_interrupt_is_not_absorbed:
  "extract_and_load_complaints_task (example_env [''JPM'', ''STOP'', ''CITI''] ''2024-01-10'')
      ''2024-01-01'' ''2024-01-10'' ''STOP'' ''db'' [''JPM'']
     = (Inl (PyExc ''KeyboardInterrupt'' False []), [''JPM'']) \<and>
   cfpb_complaints_incremental_flow (example_env [''JPM'', ''STOP'', ''CITI''] ''2024-01-10'') ''db''
      (example_world None)
     = (Inl (PyExc ''KeyboardInterrupt'' False []),
        \<lparr>watermark = None, storage = [''JPM''],
         events = [Task_call ''2024-01-01'' ''2024-01-10'' ''JPM'' ''db'',
                   Task_call ''2024-01-01'' ''2024-01-10'' ''STOP'' ''db'']\<rparr>)"
proof -
  have "extract_and_load_complaints_task (example_env [''JPM'', ''STOP'', ''CITI''] ''2024-01-10'')
      ''2024-01-01'' ''2024-01-10'' ''STOP'' ''db'' [''JPM'']
     = (Inl (PyExc ''KeyboardInterrupt'' False []), [''JPM''])" by code_simp
  moreover have
    "cfpb_complaints_incremental_flow (example_env [''JPM'', ''STOP'', ''CITI''] ''2024-01-10'') ''db''
      (example_world None)
     = (Inl (PyExc ''KeyboardInterrupt'' False []),
        \<lparr>watermark = None, storage = [''JPM''],
         events = [Task_call ''2024-01-01'' ''2024-01-10'' ''JPM'' ''db'',
                   Task_call ''2024-01-01'' ''2024-01-10'' ''STOP'' ''db'']\<rparr>)" by code_simp
  ultimately show ?thesis by (rule conjI)
qed

text \<open>
  Claim C9, amended. Every exception raised by the per-company task that is an instance
  of Exception, of whatever class and not only ExtractionError, is absorbed into a
  failed result whose error field is the string form of the exception, and the
  per-company loop never rethrows an instance of Exception.
\<close>

theorem exception_instances_are_absorbed:
  assumes "extract_and_load_complaints_task env date_min date_max company database_path (storage st)
             = (Inl e, w')"
    and "is_Exception e"
  shows "try_company env date_min date_max database_path company st =
           (Inr [(''company'', company), (''status'', ''failed''), (''error'', str_exc e)],
            st\<lparr>events := events st @ [Task_call date_min date_max company database_path],
               storage := w'\<rparr>)
       \<and> (\<forall>cs results st0 x st1.
             company_loop env date_min date_max database_path cs results st0 = (Inl x, st1)
             \<longrightarrow> \<not> is_Exception x)"
  using try_company_caught[OF assms] company_loop_Inl by blast

theorem exception_instances_are_absorbed_witness:
  "extract_and_load_complaints_task
      ((example_env [''ACME''] ''2024-01-10'')
         \<lparr>run_pipeline := (\<lambda>database_path date_min date_max company w.
              (Inl (PyExc ''ConnectionError'' True ''timed out''), w))\<rparr>)
      ''2024-01-01'' ''2024-01-10'' ''ACME'' ''db'' (storage (example_world None))
     = (Inl (PyExc ''ConnectionError'' True ''timed out''), []) \<and>
   is_Exception (PyExc ''ConnectionError'' True ''timed out'') \<and>
   try_company
      ((example_env [''ACME''] ''2024-01-10'')
         \<lparr>run_pipeline := (\<lambda>database_path date_min date_max company w.
              (Inl (PyExc ''ConnectionError'' True ''timed out''), w))\<rparr>)
      ''2024-01-01'' ''2024-01-10'' ''db'' ''ACME'' (example_world None)
     = (Inr [(''company'', ''ACME''), (''status'', ''failed''), (''error'', ''timed out'')],
        \<lparr>watermark = None, storage = [],
         events = [Task_call ''2024-01-01'' ''2024-01-10'' ''ACME'' ''db'']\<rparr>)"
proof -
  let ?E = "(example_env [''ACME''] ''2024-01-10'')
         \<lparr>run_pipeline := (\<lambda>database_path date_min date_max company w.
              (Inl (PyExc ''ConnectionError'' True ''timed out''), w))\<rparr>"
  let ?e = "PyExc ''ConnectionError'' True ''timed out''"
  have h1: "extract_and_load_complaints_task ?E ''2024-01-01'' ''2024-01-10'' ''ACME'' ''db''
      (storage (example_world None)) = (Inl ?e, [])"
    by (simp add: extract_and_load_complaints_task_def example_env_def example_world_def)
  have h2: "is_Exception ?e" by simp
  from exception_instances_are_absorbed[OF h1 h2]
  have "try_company ?E ''2024-01-01'' ''2024-01-10'' ''db'' ''ACME'' (example_world None)
     = (Inr [(''company'', ''ACME''), (''status'', ''failed''), (''error'', str_exc ?e)],
        (example_world None)\<lparr>events := events (example_world None)
           @ [Task_call ''2024-01-01'' ''2024-01-10'' ''ACME'' ''db''], storage := []\<rparr>)"
    by blast
  then have "try_company ?E ''2024-01-01'' ''2024-01-10'' ''db'' ''ACME'' (example_world None)
     = (Inr [(''company'', ''ACME''), (''status'', ''failed''), (''error'', ''timed out'')],
        \<lparr>watermark = None, storage = [],
         events = [Task_call ''2024-01-01'' ''2024-01-10'' ''ACME'' ''db'']\<rparr>)"
    by (simp add: example_world_def)
  with h1 h2 show ?thesis by blast
qed


subsection \<open>The next load window\<close>

text \<open>
  Claim C4. For every start date s: without a watermark, get_next_load_date(s) returns
  (s, today); with a watermark w it returns (w + 1 day, today), whatever s and today
  are. The day after w is taken on the calendar: it is later than w and no date lies
  between the two. The operation is the one modelled from section 4.1 of the
  specification.
\<close>

theorem next_load_window:
  "(get_last_loaded_date st = None \<longrightarrow>
      get_next_load_date env st s = Inr (s, today env))
   \<and> (\<forall>w d. get_last_loaded_date st = Some w \<and> parse_iso_date w = Inr d \<longrightarrow>
         get_next_load_date env st s = Inr (strftime_ymd (plus_one_day d), today env))
   \<and> (\<forall>d. valid_date d \<and> get_last_loaded_date st = Some (strftime_ymd d) \<longrightarrow>
         get_next_load_date env st s = Inr (strftime_ymd (plus_one_day d), today env) \<and>
         datetime_gt (plus_one_day d) d \<and>
         (\<forall>d'. valid_date d' \<and> datetime_gt d' d \<longrightarrow> \<not> datetime_gt (plus_one_day d) d'))"
proof (intro conjI allI impI)
  assume "get_last_loaded_date st = None"
  then show "get_next_load_date env st s = Inr (s, today env)"
    by (simp add: get_next_load_date_def)
next
  fix w d
  assume "get_last_loaded_date st = Some w \<and> parse_iso_date w = Inr d"
  then show "get_next_load_date env st s = Inr (strftime_ymd (plus_one_day d), today env)"
    by (simp add: get_next_load_date_def)
next
  fix d
  assume "valid_date d \<and> get_last_loaded_date st = Some (strftime_ymd d)"
  then show "get_next_load_date env st s = Inr (strftime_ymd (plus_one_day d), today env)"
    by (simp add: get_next_load_date_def parse_strftime)
next
  fix d
  show "datetime_gt (plus_one_day d) d" by (rule plus_one_day_later)
next
  fix d d'
  assume "valid_date d \<and> get_last_loaded_date st = Some (strftime_ymd d)"
    and "valid_date d' \<and> datetime_gt d' d"
  then show "\<not> datetime_gt (plus_one_day d) d'" using plus_one_day_next by blast
qed

theorem next_load_window_witness:
  "get_last_loaded_date (example_world None) = None \<and>
   get_next_load_date (example_env [''JPM''] ''2024-01-10'') (example_world None) ''2024-01-01''
     = Inr (''2024-01-01'', ''2024-01-10'') \<and>
   valid_date (2024, 1, 10) \<and>
   get_last_loaded_date (example_world (Some ''2024-01-10'')) = Some (strftime_ymd (2024, 1, 10)) \<and>
   get_next_load_date (example_env [''JPM''] ''2024-01-10'') (example_world (Some ''2024-01-10''))
      ''2024-01-01''
     = Inr (''2024-01-11'', ''2024-01-10'')"
proof -
  let ?E = "example_env [''JPM''] ''2024-01-10''"
  have h1: "get_last_loaded_date (example_world None :: string list world) = None" by code_simp
  have t1: "today ?E = ''2024-01-10''" by (simp add: example_env_def)
  have h2: "valid_date (2024, 1, 10)" by code_simp
  have h3: "get_last_loaded_date (example_world (Some ''2024-01-10'') :: string list world)
      = Some (strftime_ymd (2024, 1, 10))" by code_simp
  have p: "strftime_ymd (plus_one_day (2024, 1, 10)) = ''2024-01-11''" by code_simp
  from next_load_window[of "example_world None" ?E "''2024-01-01''"] h1 t1
  have c1: "get_next_load_date ?E (example_world None) ''2024-01-01''
      = Inr (''2024-01-01'', ''2024-01-10'')" by simp
  from next_load_window[of "example_world (Some ''2024-01-10'')" ?E "''2024-01-01''"] h2 h3
  have "get_next_load_date ?E (example_world (Some ''2024-01-10'')) ''2024-01-01''
      = Inr (strftime_ymd (plus_one_day (2024, 1, 10)), today ?E)" by blast
  with p t1 have c2: "get_next_load_date ?E (example_world (Some ''2024-01-10'')) ''2024-01-01''
      = Inr (''2024-01-11'', ''2024-01-10'')" by simp
  from h1 c1 h2 h3 c2 show ?thesis by (intro conjI)
qed

end
